theory Spec2Isabelle
  imports Complex_Main
begin

section \<open>JavaScript text primitives\<close>

text \<open>
  Texts are modelled as \<^typ>\<open>string\<close>: a character is a code unit below 256. The
  white-space class of \<^verbatim>\<open>String.prototype.trim\<close> and of the regular-expression escape
  \<^verbatim>\<open>\s\<close> is one and the same class in JavaScript; below 256 it consists of tab, line
  feed, vertical tab, form feed, carriage return, space and the no-break space (160).
  The digit class \<^verbatim>\<open>\d\<close> is exactly \<^verbatim>\<open>0-9\<close>.
\<close>

definition isSpace :: "char \<Rightarrow> bool" where
  "isSpace c = (let n = (of_char c :: nat) in (9 \<le> n \<and> n \<le> 13) \<or> n = 32 \<or> n = 160)"

definition isDigit :: "char \<Rightarrow> bool" where
  "isDigit c = (let n = (of_char c :: nat) in 48 \<le> n \<and> n \<le> 57)"

definition isUpper :: "char \<Rightarrow> bool" where
  "isUpper c = (let n = (of_char c :: nat) in 65 \<le> n \<and> n \<le> 90)"

definition isLower :: "char \<Rightarrow> bool" where
  "isLower c = (let n = (of_char c :: nat) in 97 \<le> n \<and> n \<le> 122)"

definition isLetter :: "char \<Rightarrow> bool" where
  "isLetter c = (isUpper c \<or> isLower c)"

text \<open>\<^verbatim>\<open>s.trim()\<close>: white space removed at both ends.\<close>

definition trim :: "string \<Rightarrow> string" where
  "trim s = rev (dropWhile isSpace (rev (dropWhile isSpace s)))"

text \<open>
  \<^verbatim>\<open>s.toLowerCase()\<close>: below 256 the letters with a lower-case form are \<^verbatim>\<open>A-Z\<close> and the
  code units 192 to 222 without 215, each 32 below its lower-case form.
\<close>

definition hasLowerCase :: "char \<Rightarrow> bool" where
  "hasLowerCase c =
     (let n = (of_char c :: nat) in (65 \<le> n \<and> n \<le> 90) \<or> (192 \<le> n \<and> n \<le> 222 \<and> n \<noteq> 215))"

definition toLowerCase :: "string \<Rightarrow> string" where
  "toLowerCase s = map (\<lambda>c. if hasLowerCase c then char_of (of_char c + (32 :: nat)) else c) s"

text \<open>\<^verbatim>\<open>s.includes('@')\<close>.\<close>

definition includesAt :: "string \<Rightarrow> bool" where
  "includesAt s = (CHR ''@'' \<in> set s)"

text \<open>
  \<^verbatim>\<open>s.replace(/\s+/g, '')\<close>: scanning from the left, every maximal run of white space is
  replaced by the empty text.
\<close>

function replaceSpaceRuns :: "string \<Rightarrow> string" where
  "replaceSpaceRuns [] = []"
| "replaceSpaceRuns (c # cs) =
     (if isSpace c then replaceSpaceRuns (dropWhile isSpace cs) else c # replaceSpaceRuns cs)"
  by pat_completeness auto
termination
  by (relation "measure length") (auto simp: length_dropWhile_le less_Suc_eq_le)

text \<open>\<^verbatim>\<open>xs.join(sep)\<close> on texts.\<close>

fun joinWith :: "string \<Rightarrow> string list \<Rightarrow> string" where
  "joinWith sep [] = []"
| "joinWith sep [x] = x"
| "joinWith sep (x # y # ys) = x @ sep @ joinWith sep (y # ys)"

section \<open>Regular expressions\<close>

text \<open>
  The three patterns of the program are anchored at both ends (\<^verbatim>\<open>^...$\<close>, no flags), so
  \<^verbatim>\<open>re.test(s)\<close> is a match of the whole text. Patterns are values of \<open>rexp\<close>; matching
  is by derivatives.
\<close>

datatype rexp =
    Fail
  | Eps
  | Cls "char \<Rightarrow> bool"
  | Alt rexp rexp
  | Seq rexp rexp
  | Rep rexp

fun nullable :: "rexp \<Rightarrow> bool" where
  "nullable Fail = False"
| "nullable Eps = True"
| "nullable (Cls p) = False"
| "nullable (Alt r s) = (nullable r \<or> nullable s)"
| "nullable (Seq r s) = (nullable r \<and> nullable s)"
| "nullable (Rep r) = True"

fun deriv :: "char \<Rightarrow> rexp \<Rightarrow> rexp" where
  "deriv c Fail = Fail"
| "deriv c Eps = Fail"
| "deriv c (Cls p) = (if p c then Eps else Fail)"
| "deriv c (Alt r s) = Alt (deriv c r) (deriv c s)"
| "deriv c (Seq r s) =
     (if nullable r then Alt (Seq (deriv c r) s) (deriv c s) else Seq (deriv c r) s)"
| "deriv c (Rep r) = Seq (deriv c r) (Rep r)"

fun regexTest :: "rexp \<Rightarrow> string \<Rightarrow> bool" where
  "regexTest r [] = nullable r"
| "regexTest r (c # cs) = regexTest (deriv c r) cs"

text \<open>
  Two syntactic readings of a pattern, for reasoning about \<open>regexTest\<close>: a pattern that
  matches no text at all, and the characters some class of the pattern lets through.
\<close>

fun isFail :: "rexp \<Rightarrow> bool" where
  "isFail Fail = True"
| "isFail Eps = False"
| "isFail (Cls p) = False"
| "isFail (Alt r s) = (isFail r \<and> isFail s)"
| "isFail (Seq r s) = (isFail r \<or> isFail s)"
| "isFail (Rep r) = False"

fun accepts :: "rexp \<Rightarrow> char \<Rightarrow> bool" where
  "accepts Fail c = False"
| "accepts Eps c = False"
| "accepts (Cls p) c = p c"
| "accepts (Alt r s) c = (accepts r c \<or> accepts s c)"
| "accepts (Seq r s) c = (accepts r c \<or> accepts s c)"
| "accepts (Rep r) c = accepts r c"

definition oneOrMore :: "rexp \<Rightarrow> rexp" where
  "oneOrMore r = Seq r (Rep r)"

definition optional :: "rexp \<Rightarrow> rexp" where
  "optional r = Alt Eps r"

text \<open>\<open>r{1,6}\<close>\<close>

definition oneToSix :: "rexp \<Rightarrow> rexp" where
  "oneToSix r =
     Seq r (optional (Seq r (optional (Seq r (optional (Seq r (optional (Seq r (optional r)))))))))"

definition chr :: "char \<Rightarrow> rexp" where
  "chr c = Cls (\<lambda>x. x = c)"

text \<open>\<^verbatim>\<open>const AMOUNT_REGEX = /^\d+(\.\d{1,6})?$/;\<close>\<close>

definition AMOUNT_REGEX :: rexp where
  "AMOUNT_REGEX =
     Seq (oneOrMore (Cls isDigit)) (optional (Seq (chr (CHR ''.'')) (oneToSix (Cls isDigit))))"

text \<open>\<^verbatim>\<open>const EMAIL_REGEX = /^[a-zA-Z0-9._%+-]+@[a-zA-Z0-9.-]+\.[a-zA-Z]{2,}$/;\<close>\<close>

definition emailLocalChar :: "char \<Rightarrow> bool" where
  "emailLocalChar c = (isLetter c \<or> isDigit c \<or> c \<in> set ''._%+-'')"

definition emailDomainChar :: "char \<Rightarrow> bool" where
  "emailDomainChar c = (isLetter c \<or> isDigit c \<or> c \<in> set ''.-'')"

definition EMAIL_REGEX :: rexp where
  "EMAIL_REGEX =
     Seq (oneOrMore (Cls emailLocalChar))
      (Seq (chr (CHR ''@''))
        (Seq (oneOrMore (Cls emailDomainChar))
          (Seq (chr (CHR ''.''))
            (Seq (Cls isLetter) (Seq (Cls isLetter) (Rep (Cls isLetter)))))))"

text \<open>\<^verbatim>\<open>const OTP_REGEX = /^\s*\d{1,6}(?:\s+\d{1,6})*\s*$/;\<close>\<close>

definition OTP_REGEX :: rexp where
  "OTP_REGEX =
     Seq (Rep (Cls isSpace))
      (Seq (oneToSix (Cls isDigit))
        (Seq (Rep (Seq (oneOrMore (Cls isSpace)) (oneToSix (Cls isDigit))))
          (Rep (Cls isSpace))))"

section \<open>Numbers read from amount texts\<close>

text \<open>
  A number of the program is a double. The ones that arise here are the finite doubles,
  kept as the rational they denote, and \<^verbatim>\<open>Infinity\<close>, which a long enough amount text
  parses to.
\<close>

datatype number = Num rat | PosInfinity

text \<open>\<^verbatim>\<open>amount <= 0\<close>\<close>

fun numberLeZero :: "number \<Rightarrow> bool" where
  "numberLeZero (Num r) = (r \<le> 0)"
| "numberLeZero PosInfinity = False"

text \<open>The number of binary digits of a positive \<open>n\<close>.\<close>

function bitLength :: "int \<Rightarrow> nat" where
  "bitLength n = (if n \<le> 0 then 0 else Suc (bitLength (n div 2)))"
  by pat_completeness auto
termination
  by (relation "measure nat") auto

definition pow2 :: "int \<Rightarrow> rat" where
  "pow2 k = (if 0 \<le> k then 2 ^ nat k else 1 / 2 ^ nat (- k))"

text \<open>Rounding to the nearest integer, a tie to the even one.\<close>

definition roundHalfEven :: "rat \<Rightarrow> int" where
  "roundHalfEven y =
     (let f = \<lfloor>y\<rfloor>; d = y - of_int f
      in if d < 1 / 2 then f else if 1 / 2 < d then f + 1 else if even f then f else f + 1)"

text \<open>
  The double nearest to the fraction \<open>p / q\<close> (\<open>p\<close> not negative, \<open>q\<close> positive), ties to even: with
  \<open>2\<^sup>e \<le> p / q < 2\<^sup>e\<^sup>+\<^sup>1\<close> the doubles around it are the multiples of \<open>2\<^sup>e\<^sup>-\<^sup>5\<^sup>2\<close>, or of
  \<open>2\<^sup>-\<^sup>1\<^sup>0\<^sup>7\<^sup>4\<close> below the normal range. The nearest multiple is \<open>m\<close> times that unit,
  with \<open>m\<close> at most \<open>2\<^sup>5\<^sup>3\<close>; when it reaches \<open>2\<^sup>1\<^sup>0\<^sup>2\<^sup>4\<close> the result is \<^verbatim>\<open>Infinity\<close>.
\<close>

definition nearestDouble :: "int \<Rightarrow> int \<Rightarrow> number" where
  "nearestDouble p q =
     (if p = 0 then Num 0
      else
       (let x = (of_int p / of_int q :: rat);
            e0 = int (bitLength p) - int (bitLength q);
            e = (if pow2 e0 \<le> x then e0 else e0 - 1);
            ulp = pow2 (max e (- 1022) - 52);
            m = roundHalfEven (x / ulp)
        in if 1023 < e \<or> (e = 1023 \<and> m = 2 ^ 53) then PosInfinity
           else Num (of_int m * ulp)))"

text \<open>
  \<^verbatim>\<open>parseFloat\<close> is only ever applied to a text that \<open>AMOUNT_REGEX\<close> has accepted: decimal
  digits, optionally a point and one to six more digits. Its value is the double nearest
  to the decimal value of that text.
\<close>

definition digitsVal :: "string \<Rightarrow> int" where
  "digitsVal ds = foldl (\<lambda>a c. 10 * a + (of_char c - 48)) 0 ds"

definition parseFloat :: "string \<Rightarrow> number" where
  "parseFloat s =
     (let ip = takeWhile isDigit s;
          r = dropWhile isDigit s;
          fp = (case r of [] \<Rightarrow> [] | c # r' \<Rightarrow> if c = CHR ''.'' then takeWhile isDigit r' else [])
      in nearestDouble (digitsVal (ip @ fp)) (10 ^ length fp))"

section \<open>Dynamic values\<close>

text \<open>
  Response bodies, stored sessions and caught errors are untyped in the program. A value
  is one of the following; \<open>JUndefined\<close> is what reading an absent property gives. The
  pairs of an object are in the order in which the engine enumerates its properties,
  with distinct keys. Numbers are the integers (timestamps, durations and status codes
  are), with \<open>JNaN\<close> for the result of a failed conversion.
\<close>

datatype json =
    JUndefined
  | JNull
  | JBool bool
  | JNum int
  | JNaN
  | JStr string
  | JArr "json list"
  | JObj "(string \<times> json) list"

fun truthy :: "json \<Rightarrow> bool" where
  "truthy JUndefined = False"
| "truthy JNull = False"
| "truthy (JBool b) = b"
| "truthy (JNum n) = (n \<noteq> 0)"
| "truthy JNaN = False"
| "truthy (JStr s) = (s \<noteq> [])"
| "truthy (JArr xs) = True"
| "truthy (JObj kvs) = True"

text \<open>\<^verbatim>\<open>a || b\<close> and \<^verbatim>\<open>a && b\<close>\<close>

definition js_or :: "json \<Rightarrow> json \<Rightarrow> json" where
  "js_or a b = (if truthy a then a else b)"

definition js_and :: "json \<Rightarrow> json \<Rightarrow> json" where
  "js_and a b = (if truthy a then b else a)"

text \<open>
  \<^verbatim>\<open>x.k\<close> for a named property \<open>k\<close> of the response vocabulary, on a value that is neither
  \<^verbatim>\<open>null\<close> nor \<^verbatim>\<open>undefined\<close>, and \<^verbatim>\<open>x?.k\<close> on any value. Where the program reads a
  property of a possibly null value without \<^verbatim>\<open>?.\<close>, the \<^verbatim>\<open>TypeError\<close> is written out
  at that place.
\<close>

fun get :: "json \<Rightarrow> string \<Rightarrow> json" where
  "get (JObj kvs) k = (case map_of kvs k of None \<Rightarrow> JUndefined | Some v \<Rightarrow> v)"
| "get v k = JUndefined"

fun nullish :: "json \<Rightarrow> bool" where
  "nullish JUndefined = True"
| "nullish JNull = True"
| "nullish v = False"

text \<open>\<^verbatim>\<open>typeof v === 'object'\<close> (true of \<^verbatim>\<open>null\<close> and of arrays as well)\<close>

fun typeofObject :: "json \<Rightarrow> bool" where
  "typeofObject JNull = True"
| "typeofObject (JArr xs) = True"
| "typeofObject (JObj kvs) = True"
| "typeofObject v = False"

text \<open>Decimal notation of an integer, as \<^verbatim>\<open>String(n)\<close> gives it below \<open>10\<^sup>2\<^sup>1\<close>.\<close>

function showNat :: "nat \<Rightarrow> string" where
  "showNat n =
     (if n < 10 then [char_of (48 + n)] else showNat (n div 10) @ [char_of (48 + n mod 10)])"
  by pat_completeness auto
termination
  by (relation "measure id") auto

definition showInt :: "int \<Rightarrow> string" where
  "showInt i = (if i < 0 then CHR ''-'' # showNat (nat (- i)) else showNat (nat i))"

text \<open>
  \<^verbatim>\<open>String(v)\<close>, which is also what a template literal \<^verbatim>\<open>`${v}`\<close> and \<^verbatim>\<open>new Error(v)\<close> apply.
  An array is joined with commas, \<^verbatim>\<open>null\<close> and \<^verbatim>\<open>undefined\<close> elements as empty texts.
\<close>

fun toString :: "json \<Rightarrow> string" where
  "toString JUndefined = ''undefined''"
| "toString JNull = ''null''"
| "toString (JBool b) = (if b then ''true'' else ''false'')"
| "toString (JNum n) = showInt n"
| "toString JNaN = ''NaN''"
| "toString (JStr s) = s"
| "toString (JArr xs) = joinWith '','' (map (\<lambda>x. if nullish x then [] else toString x) xs)"
| "toString (JObj kvs) = ''[object Object]''"

text \<open>\<^verbatim>\<open>xs.join(sep)\<close> on an array of values\<close>

definition joinValues :: "string \<Rightarrow> json list \<Rightarrow> string" where
  "joinValues sep xs = joinWith sep (map (\<lambda>x. if nullish x then [] else toString x) xs)"

text \<open>\<^verbatim>\<open>Object.values(v)\<close> on a value that is neither \<^verbatim>\<open>null\<close> nor \<^verbatim>\<open>undefined\<close>\<close>

fun objectValues :: "json \<Rightarrow> json list" where
  "objectValues (JObj kvs) = map snd kvs"
| "objectValues (JArr xs) = xs"
| "objectValues (JStr s) = map (\<lambda>c. JStr [c]) s"
| "objectValues v = []"

text \<open>Exceptions are values: \<open>Inl\<close> of the thrown error.\<close>

datatype js_error = Error string | TypeError

section \<open>The remote service and the session store\<close>

datatype http_method = GET | POST | PUT

record http_request =
  verb :: http_method
  url :: string
  body :: json
  query :: "(string \<times> int) list"
  bearer :: "string option"

text \<open>
  What \<^verbatim>\<open>await axios...\<close> produces: a response (status, data), or a thrown error that
  carries the response of the server when there was one, and its own message.
\<close>

datatype axios_result =
    Resolved int json
  | Rejected "(int \<times> json) option" string

text \<open>
  The surroundings of the program: the remote service, the clock, and the conversions of
  the language that are not spelled out here (\<^verbatim>\<open>Number.prototype.toString\<close>,
  \<^verbatim>\<open>Date\<close> parsing of a text, \<^verbatim>\<open>JSON.stringify\<close>).
\<close>

record env =
  http :: "http_request \<Rightarrow> axios_result"
  now :: int
  dateParse :: "string \<Rightarrow> int option"
  numberToString :: "number \<Rightarrow> string"
  stringify :: "json \<Rightarrow> string"

text \<open>\<^verbatim>\<open>interface AuthToken\<close>, as stored under \<^verbatim>\<open>user_session:<chatId>\<close>\<close>

record auth_token =
  at_token :: json
  at_expiresIn :: json
  at_organizationId :: json
  at_refreshToken :: "json option"

text \<open>
  The store keeps the text \<^verbatim>\<open>JSON.stringify(token)\<close> and \<open>getUserSession\<close> returns
  \<^verbatim>\<open>JSON.parse\<close> of it. What comes back is the value that went in, except that \<^verbatim>\<open>NaN\<close>
  has become \<^verbatim>\<open>null\<close>, an \<^verbatim>\<open>undefined\<close> property of an object is gone, and an \<^verbatim>\<open>undefined\<close>
  element of an array is \<^verbatim>\<open>null\<close>. The store is modelled by the values that come back;
  the expiry of its entries after 24 hours is not modelled.
\<close>

fun jsonRoundTrip :: "json \<Rightarrow> json" where
  "jsonRoundTrip JNaN = JNull"
| "jsonRoundTrip (JArr xs) =
     JArr (map (\<lambda>x. if x = JUndefined then JNull else jsonRoundTrip x) xs)"
| "jsonRoundTrip (JObj kvs) =
     JObj (map (\<lambda>(k, v). (k, jsonRoundTrip v)) (filter (\<lambda>(k, v). v \<noteq> JUndefined) kvs))"
| "jsonRoundTrip v = v"

type_synonym redis = "int \<rightharpoonup> auth_token"

definition storeUserSession :: "redis \<Rightarrow> int \<Rightarrow> auth_token \<Rightarrow> redis" where
  "storeUserSession store chatId tokens =
     store(chatId \<mapsto>
       \<lparr>at_token = jsonRoundTrip (at_token tokens),
        at_expiresIn = jsonRoundTrip (at_expiresIn tokens),
        at_organizationId = jsonRoundTrip (at_organizationId tokens),
        at_refreshToken = map_option jsonRoundTrip (at_refreshToken tokens)\<rparr>)"

definition getUserSession :: "redis \<Rightarrow> int \<Rightarrow> auth_token option" where
  "getUserSession store chatId = store chatId"

definition isAuthenticated :: "redis \<Rightarrow> int \<Rightarrow> bool" where
  "isAuthenticated store chatId = (store chatId \<noteq> None)"

definition getUserToken :: "redis \<Rightarrow> int \<Rightarrow> json" where
  "getUserToken store chatId =
     (case getUserSession store chatId of None \<Rightarrow> JUndefined | Some session \<Rightarrow> at_token session)"

text \<open>\<^verbatim>\<open>error.response?.data?.message\<close> of a caught error\<close>

definition responseMessage :: "(int \<times> json) option \<Rightarrow> json" where
  "responseMessage resp = (case resp of None \<Rightarrow> JUndefined | Some (status, d) \<Rightarrow> get d ''message'')"

text \<open>
  The value a caught error is reported with: the \<^verbatim>\<open>message\<close> of the response body when
  that is truthy, as it was received, else the text of the error, else a fixed phrase.
\<close>

definition reportedError :: "(int \<times> json) option \<Rightarrow> string \<Rightarrow> string \<Rightarrow> json" where
  "reportedError resp msg phrase =
     (if truthy (responseMessage resp) then responseMessage resp
      else if msg \<noteq> [] then JStr msg else JStr phrase)"

section \<open>Remote API gateway: transfers\<close>

text \<open>
  The result object of the transfer operations; an absent field is \<open>JUndefined\<close>. Every
  operation returns its result together with the requests it has issued.
\<close>

record api_result =
  success :: bool
  data :: json
  error :: json

definition bearerOf :: "json \<Rightarrow> string option" where
  "bearerOf token = Some (toString token)"

text \<open>
  \<^verbatim>\<open>sendFunds(token, recipient, amount, description)\<close>. Its callers pass the amount as the
  text \<^verbatim>\<open>userData.amount.toString()\<close>, on which the \<^verbatim>\<open>amount.toString()\<close> of the body is
  the identity.
\<close>

definition sendFunds ::
  "env \<Rightarrow> json \<Rightarrow> string \<Rightarrow> string \<Rightarrow> string \<Rightarrow> (js_error + api_result) \<times> http_request list" where
  "sendFunds e token recipient amount description =
     (let req = \<lparr>verb = POST, url = ''/transfers/send'',
                 body = JObj [(''recipient'', JStr recipient), (''amount'', JStr amount),
                   (''description'', js_or (JStr description) (JStr ''Sent via Telegram''))],
                 query = [], bearer = bearerOf token\<rparr>
      in (case http e req of
            Resolved status d \<Rightarrow> Inr \<lparr>success = True, data = d, error = JUndefined\<rparr>
          | Rejected resp msg \<Rightarrow>
              Inr \<lparr>success = False,
                   data = JObj [(''error'',
                     js_or (responseMessage resp) (js_or (JStr msg) (JStr ''Failed to send funds'')))],
                   error = JUndefined\<rparr>,
          [req]))"

definition withdrawToWallet ::
  "env \<Rightarrow> json \<Rightarrow> string \<Rightarrow> string \<Rightarrow> string \<Rightarrow> (js_error + api_result) \<times> http_request list" where
  "withdrawToWallet e token address amount network =
     (let req = \<lparr>verb = POST, url = ''/transfers/wallet-withdraw'',
                 body = JObj [(''address'', JStr address), (''amount'', JStr amount),
                   (''network'', JStr network)],
                 query = [], bearer = bearerOf token\<rparr>
      in (case http e req of
            Resolved status d \<Rightarrow> Inr \<lparr>success = True, data = d, error = JUndefined\<rparr>
          | Rejected resp msg \<Rightarrow>
              Inr \<lparr>success = False,
                   data = JObj [(''error'',
                     js_or (responseMessage resp) (js_or (JStr msg) (JStr ''Failed to withdraw funds'')))],
                   error = JUndefined\<rparr>,
          [req]))"

definition withdrawToBank ::
  "env \<Rightarrow> json \<Rightarrow> string \<Rightarrow> string \<Rightarrow> (js_error + api_result) \<times> http_request list" where
  "withdrawToBank e token amount bankId =
     (let req = \<lparr>verb = POST, url = ''/transfers/offramp'',
                 body = JObj [(''amount'', JStr amount), (''bankId'', JStr bankId)],
                 query = [], bearer = bearerOf token\<rparr>
      in (case http e req of
            Resolved status d \<Rightarrow> Inr \<lparr>success = True, data = d, error = JUndefined\<rparr>
          | Rejected resp msg \<Rightarrow>
              Inr \<lparr>success = False,
                   data = JObj [(''error'',
                     js_or (responseMessage resp)
                       (js_or (JStr msg) (JStr ''Failed to withdraw funds to bank'')))],
                   error = JUndefined\<rparr>,
          [req]))"

definition getTransactionHistory ::
  "env \<Rightarrow> json \<Rightarrow> int \<Rightarrow> int \<Rightarrow> (js_error + api_result) \<times> http_request list" where
  "getTransactionHistory e token page limit =
     (let req = \<lparr>verb = GET, url = ''/transfers'', body = JUndefined,
                 query = [(''page'', page), (''limit'', limit)], bearer = bearerOf token\<rparr>
      in (case http e req of
            Resolved status d \<Rightarrow> Inr \<lparr>success = True, data = d, error = JUndefined\<rparr>
          | Rejected resp msg \<Rightarrow>
              Inr \<lparr>success = False, data = JUndefined,
                   error = js_or (responseMessage resp)
                     (js_or (JStr msg) (JStr ''Failed to fetch transaction history''))\<rparr>,
          [req]))"

section \<open>Remote API gateway: wallets\<close>

text \<open>
  The \<^verbatim>\<open>catch\<close> block shared by the four wallet operations. A caught axios error is an
  \<^verbatim>\<open>Error\<close> instance, so the last alternative of the source, for a thrown value that is
  no \<^verbatim>\<open>Error\<close>, is never reached from an axios call.
\<close>

definition walletCatch :: "(int \<times> json) option \<Rightarrow> string \<Rightarrow> js_error" where
  "walletCatch resp msg =
     (if truthy (responseMessage resp) then Error (toString (responseMessage resp)) else Error msg)"

definition walletCall :: "env \<Rightarrow> redis \<Rightarrow> int \<Rightarrow> http_method \<Rightarrow> string \<Rightarrow> json
    \<Rightarrow> (js_error + json) \<times> http_request list" where
  "walletCall e store chatId m path payload =
     (case getUserSession store chatId of
        None \<Rightarrow> (Inl (Error ''User not authenticated''), [])
      | Some session \<Rightarrow>
          (let req = \<lparr>verb = m, url = path, body = payload, query = [],
                      bearer = bearerOf (at_token session)\<rparr>
           in (case http e req of
                 Resolved status d \<Rightarrow> Inr d
               | Rejected resp msg \<Rightarrow> Inl (walletCatch resp msg),
               [req])))"

definition getWallets :: "env \<Rightarrow> redis \<Rightarrow> int \<Rightarrow> (js_error + json) \<times> http_request list" where
  "getWallets e store chatId = walletCall e store chatId GET ''/wallets'' JUndefined"

definition getWalletBalances :: "env \<Rightarrow> redis \<Rightarrow> int \<Rightarrow> (js_error + json) \<times> http_request list" where
  "getWalletBalances e store chatId = walletCall e store chatId GET ''/wallets/balances'' JUndefined"

definition setDefaultWallet ::
  "env \<Rightarrow> redis \<Rightarrow> int \<Rightarrow> string \<Rightarrow> (js_error + json) \<times> http_request list" where
  "setDefaultWallet e store chatId walletId =
     walletCall e store chatId PUT ''/wallets/default'' (JObj [(''walletId'', JStr walletId)])"

definition getDefaultWallet :: "env \<Rightarrow> redis \<Rightarrow> int \<Rightarrow> (js_error + json) \<times> http_request list" where
  "getDefaultWallet e store chatId = walletCall e store chatId GET ''/wallets/default'' JUndefined"

section \<open>Conversation engine\<close>

text \<open>
  The texts the bot sends, by kind; what a template interpolates is the argument. The
  wording, emoji and keyboards of a message are not part of the model.
\<close>

datatype reply =
    AskRecipient
  | InvalidRecipient
  | AskAmount string
  | InvalidAmount
  | AmountNotPositive
  | AskDescription
  | TransferConfirmation string "number option" "string option"
  | TransferDataNotFound
  | AuthenticationError
  | DefaultWalletError string
  | ProcessingTransfer
  | TransferSuccessful number string string
  | TransferFailed string
  | TransferWentWrong
  | TransferCanceled
  | AskBankAmount
  | BankConfirmation number
  | WithdrawalDataNotFound
  | ProcessingBankWithdrawal
  | BankWithdrawalInitiated number string
  | BankWithdrawalFailed string
  | BankWithdrawalWentWrong
  | WithdrawalCanceled
  | AlreadyLoggedIn
  | AskEmail
  | InvalidEmailFormat
  | FailedToSendOtp js_error
  | OtpSent string
  | InvalidOtpFormat
  | Authenticating
  | AuthenticationFailed js_error
  | Welcome string
  | EmailTimeoutNotice
  | OtpTimeoutNotice

text \<open>What a handler does to the outside, in order.\<close>

datatype effect =
    SendMessage int reply
  | AnswerCallbackQuery string "string option"
  | Http http_request
  | StartWalletWithdrawConversation int
  | StartBankWithdrawConversation int
  | DeleteMessage int
  | PusherSubscribe string

record message =
  msg_chat :: int
  msg_text :: "string option"

text \<open>\<open>cq_chat\<close> is \<^verbatim>\<open>callbackQuery.message.chat.id\<close>, absent when the query has no message.\<close>

record callback_query =
  cq_id :: string
  cq_chat :: "int option"
  cq_data :: "string option"

subsection \<open>Email transfer: \<^verbatim>\<open>startSendConversation\<close>\<close>

text \<open>
  One call of \<^verbatim>\<open>startSendConversation(bot, chatId)\<close> creates one \<open>send_flow\<close>: its own
  \<^verbatim>\<open>userStates\<close> object, its \<^verbatim>\<open>callback_query\<close> handler, which stays registered for good,
  and three \<^verbatim>\<open>message\<close> listeners of which at most one is registered at a time.
\<close>

record send_draft =
  sd_recipient :: string
  sd_amount :: "number option"
  sd_description :: "string option"

datatype send_step = EmailStep | AmountStep | DescriptionStep

record send_flow =
  sf_chatId :: int
  sf_userStates :: "int \<rightharpoonup> send_draft"
  sf_listener :: "send_step option"

definition startSendConversation :: "int \<Rightarrow> send_flow \<times> effect list" where
  "startSendConversation chatId =
     (\<lparr>sf_chatId = chatId, sf_userStates = Map.empty, sf_listener = Some EmailStep\<rparr>,
      [SendMessage chatId AskRecipient])"

definition emailListener :: "send_flow \<Rightarrow> message \<Rightarrow> js_error + send_flow \<times> effect list" where
  "emailListener f msg =
     (let chatId = sf_chatId f in
      if msg_chat msg \<noteq> chatId then Inr (f, [])
      else (case map_option trim (msg_text msg) of
              None \<Rightarrow> Inr (f, [SendMessage chatId InvalidRecipient])
            | Some email \<Rightarrow>
                if email = [] \<or> \<not> includesAt email
                then Inr (f, [SendMessage chatId InvalidRecipient])
                else Inr (f\<lparr>sf_userStates := (sf_userStates f)(chatId \<mapsto>
                              \<lparr>sd_recipient = email, sd_amount = None, sd_description = None\<rparr>),
                            sf_listener := Some AmountStep\<rparr>,
                          [SendMessage chatId (AskAmount email)])))"

text \<open>
  \<^verbatim>\<open>userStates[chatId].amount = amount\<close> throws a \<^verbatim>\<open>TypeError\<close> when the entry is absent;
  the listener is an \<^verbatim>\<open>async\<close> function, so the rejection leaves everything as it was.
\<close>

definition amountListener :: "send_flow \<Rightarrow> message \<Rightarrow> js_error + send_flow \<times> effect list" where
  "amountListener f msg =
     (let chatId = sf_chatId f in
      if msg_chat msg \<noteq> chatId then Inr (f, [])
      else (case map_option trim (msg_text msg) of
              None \<Rightarrow> Inr (f, [SendMessage chatId InvalidAmount])
            | Some amountText \<Rightarrow>
                if amountText = [] \<or> \<not> regexTest AMOUNT_REGEX amountText
                then Inr (f, [SendMessage chatId InvalidAmount])
                else (let amount = parseFloat amountText in
                      if numberLeZero amount then Inr (f, [SendMessage chatId AmountNotPositive])
                      else (case sf_userStates f chatId of
                              None \<Rightarrow> Inl TypeError
                            | Some d \<Rightarrow>
                                Inr (f\<lparr>sf_userStates := (sf_userStates f)(chatId \<mapsto>
                                          d\<lparr>sd_amount := Some amount\<rparr>),
                                        sf_listener := Some DescriptionStep\<rparr>,
                                     [SendMessage chatId AskDescription])))))"

definition descriptionListener :: "send_flow \<Rightarrow> message \<Rightarrow> js_error + send_flow \<times> effect list" where
  "descriptionListener f msg =
     (let chatId = sf_chatId f in
      if msg_chat msg \<noteq> chatId then Inr (f, [])
      else (let description0 = map_option trim (msg_text msg);
                description = (if map_option toLowerCase description0 = Some ''skip''
                               then Some [] else description0)
            in (case sf_userStates f chatId of
                  None \<Rightarrow> Inl TypeError
                | Some d \<Rightarrow>
                    Inr (f\<lparr>sf_userStates := (sf_userStates f)(chatId \<mapsto>
                              d\<lparr>sd_description := description\<rparr>),
                            sf_listener := None\<rparr>,
                         [SendMessage chatId
                            (TransferConfirmation (sd_recipient d) (sd_amount d)
                               (case description of None \<Rightarrow> None
                                | Some t \<Rightarrow> if t = [] then None else Some t))]))))"

text \<open>A \<^verbatim>\<open>message\<close> event reaches the listener of the flow that is registered, if any.\<close>

definition send_on_message :: "send_flow \<Rightarrow> message \<Rightarrow> js_error + send_flow \<times> effect list" where
  "send_on_message f msg =
     (case sf_listener f of
        None \<Rightarrow> Inr (f, [])
      | Some EmailStep \<Rightarrow> emailListener f msg
      | Some AmountStep \<Rightarrow> amountListener f msg
      | Some DescriptionStep \<Rightarrow> descriptionListener f msg)"

text \<open>
  The \<^verbatim>\<open>confirm_send\<close> branch, inside its \<^verbatim>\<open>try\<close>. \<^verbatim>\<open>userData.amount.toString()\<close> throws when
  the draft has no amount yet; the \<^verbatim>\<open>catch\<close> turns that into the generic message.
\<close>

definition confirmSend ::
  "env \<Rightarrow> redis \<Rightarrow> send_flow \<Rightarrow> send_flow \<times> effect list" where
  "confirmSend e store f =
     (let chatId = sf_chatId f in
      case sf_userStates f chatId of
        None \<Rightarrow> (f, [SendMessage chatId TransferDataNotFound])
      | Some userData \<Rightarrow>
          (let token = getUserToken store chatId in
           if \<not> truthy token then (f, [SendMessage chatId AuthenticationError])
           else (case getDefaultWallet e store chatId of
                   (Inl err, reqs) \<Rightarrow>
                     (f, map Http reqs @
                         [SendMessage chatId (DefaultWalletError
                            (case err of Error m \<Rightarrow> m | TypeError \<Rightarrow> ''Unknown error''))])
                 | (Inr defaultWallet, reqs) \<Rightarrow>
                     if \<not> truthy defaultWallet
                     then (f, map Http reqs @
                              [SendMessage chatId (DefaultWalletError ''Unknown error'')])
                     else (case sd_amount userData of
                             None \<Rightarrow>
                               (f, map Http reqs @
                                   [SendMessage chatId ProcessingTransfer,
                                    SendMessage chatId TransferWentWrong])
                           | Some amount \<Rightarrow>
                               (case sendFunds e token (sd_recipient userData)
                                       (numberToString e amount)
                                       (case sd_description userData of None \<Rightarrow> [] | Some t \<Rightarrow> t) of
                                  (Inl err, reqs') \<Rightarrow>
                                    (f, map Http reqs @ [SendMessage chatId ProcessingTransfer] @
                                        map Http reqs' @ [SendMessage chatId TransferWentWrong])
                                | (Inr result, reqs') \<Rightarrow>
                                    if success result \<and> truthy (data result)
                                    then (f\<lparr>sf_userStates := (sf_userStates f)(chatId := None)\<rparr>,
                                          map Http reqs @ [SendMessage chatId ProcessingTransfer] @
                                          map Http reqs' @
                                          [SendMessage chatId (TransferSuccessful amount
                                             (sd_recipient userData)
                                             (toString (get (data result) ''id'')))])
                                    else (f,
                                          map Http reqs @ [SendMessage chatId ProcessingTransfer] @
                                          map Http reqs' @
                                          [SendMessage chatId (TransferFailed
                                             (toString (js_or (get (data result) ''message'')
                                                (JStr ''Unknown error''))))]))))))"

text \<open>The \<^verbatim>\<open>callback_query\<close> handler that \<^verbatim>\<open>startSendConversation\<close> registers.\<close>

definition send_on_callback_query ::
  "env \<Rightarrow> redis \<Rightarrow> send_flow \<Rightarrow> callback_query \<Rightarrow> send_flow \<times> effect list" where
  "send_on_callback_query e store f cq =
     (let chatId = sf_chatId f in
      if cq_chat cq \<noteq> Some chatId then (f, [])
      else if cq_data cq = Some ''confirm_send''
      then (case confirmSend e store f of
              (f', effs) \<Rightarrow> (f', AnswerCallbackQuery (cq_id cq) None # effs))
      else if cq_data cq = Some ''cancel_send''
      then (f\<lparr>sf_userStates := (sf_userStates f)(chatId := None)\<rparr>,
            [AnswerCallbackQuery (cq_id cq) (Some ''Transfer canceled''),
             SendMessage chatId TransferCanceled])
      else if cq_data cq = Some ''withdraw_wallet''
      then (f, [AnswerCallbackQuery (cq_id cq) None, StartWalletWithdrawConversation chatId])
      else if cq_data cq = Some ''withdraw_bank''
      then (f, [AnswerCallbackQuery (cq_id cq) None, StartBankWithdrawConversation chatId])
      else (f, []))"

subsection \<open>Bank withdrawal: \<^verbatim>\<open>startBankWithdrawConversation\<close>\<close>

text \<open>
  The draft of this flow is \<^verbatim>\<open>{ amount }\<close>. The \<^verbatim>\<open>callback_query\<close> handler is registered by
  the amount listener when it accepts an amount, which it does once, since it removes
  itself then.
\<close>

record bank_flow =
  bf_chatId :: int
  bf_userStates :: "int \<rightharpoonup> number"
  bf_listener :: bool
  bf_callback :: bool

definition startBankWithdrawConversation :: "int \<Rightarrow> bank_flow \<times> effect list" where
  "startBankWithdrawConversation chatId =
     (\<lparr>bf_chatId = chatId, bf_userStates = Map.empty, bf_listener = True, bf_callback = False\<rparr>,
      [SendMessage chatId AskBankAmount])"

definition bankAmountListener :: "bank_flow \<Rightarrow> message \<Rightarrow> bank_flow \<times> effect list" where
  "bankAmountListener f msg =
     (let chatId = bf_chatId f in
      if msg_chat msg \<noteq> chatId then (f, [])
      else (case map_option trim (msg_text msg) of
              None \<Rightarrow> (f, [SendMessage chatId InvalidAmount])
            | Some amountText \<Rightarrow>
                if amountText = [] \<or> \<not> regexTest AMOUNT_REGEX amountText
                then (f, [SendMessage chatId InvalidAmount])
                else (let amount = parseFloat amountText in
                      if numberLeZero amount then (f, [SendMessage chatId AmountNotPositive])
                      else (f\<lparr>bf_userStates := (bf_userStates f)(chatId \<mapsto> amount),
                              bf_listener := False, bf_callback := True\<rparr>,
                            [SendMessage chatId (BankConfirmation amount)]))))"

definition bank_on_message :: "bank_flow \<Rightarrow> message \<Rightarrow> bank_flow \<times> effect list" where
  "bank_on_message f msg = (if bf_listener f then bankAmountListener f msg else (f, []))"

definition confirmBankWithdraw ::
  "env \<Rightarrow> redis \<Rightarrow> bank_flow \<Rightarrow> bank_flow \<times> effect list" where
  "confirmBankWithdraw e store f =
     (let chatId = bf_chatId f in
      case bf_userStates f chatId of
        None \<Rightarrow> (f, [SendMessage chatId WithdrawalDataNotFound])
      | Some amount \<Rightarrow>
          (let token = getUserToken store chatId in
           if \<not> truthy token then (f, [SendMessage chatId AuthenticationError])
           else (case withdrawToBank e token (numberToString e amount) [] of
                   (Inl err, reqs) \<Rightarrow>
                     (f, [SendMessage chatId ProcessingBankWithdrawal] @ map Http reqs @
                         [SendMessage chatId BankWithdrawalWentWrong])
                 | (Inr result, reqs) \<Rightarrow>
                     if success result \<and> truthy (data result)
                     then (f\<lparr>bf_userStates := (bf_userStates f)(chatId := None)\<rparr>,
                           [SendMessage chatId ProcessingBankWithdrawal] @ map Http reqs @
                           [SendMessage chatId (BankWithdrawalInitiated amount
                              (toString (get (data result) ''id'')))])
                     else (f,
                           [SendMessage chatId ProcessingBankWithdrawal] @ map Http reqs @
                           [SendMessage chatId (BankWithdrawalFailed
                              (toString (js_or (get (data result) ''message'')
                                 (JStr ''Unknown error''))))]))))"

definition bank_on_callback_query ::
  "env \<Rightarrow> redis \<Rightarrow> bank_flow \<Rightarrow> callback_query \<Rightarrow> bank_flow \<times> effect list" where
  "bank_on_callback_query e store f cq =
     (let chatId = bf_chatId f in
      if \<not> bf_callback f \<or> cq_chat cq \<noteq> Some chatId then (f, [])
      else if cq_data cq = Some ''confirm_bank_withdraw''
      then (case confirmBankWithdraw e store f of
              (f', effs) \<Rightarrow> (f', AnswerCallbackQuery (cq_id cq) None # effs))
      else if cq_data cq = Some ''cancel_withdraw''
      then (f\<lparr>bf_userStates := (bf_userStates f)(chatId := None)\<rparr>,
            [AnswerCallbackQuery (cq_id cq) (Some ''Withdrawal canceled''),
             SendMessage chatId WithdrawalCanceled])
      else (f, []))"

section \<open>Remote API gateway: authentication\<close>

text \<open>
  \<^verbatim>\<open>emailOtpSessions\<close>, the module-level map from an email to the session id (\<^verbatim>\<open>sid\<close>) of
  its OTP request. The operations return it updated. The module-level \<^verbatim>\<open>authTokens\<close> is
  only ever written, and is left out.
\<close>

type_synonym otp_sessions = "string \<rightharpoonup> json"

text \<open>\<^verbatim>\<open>error.response.data?.message || error.response.data?.error || fallback\<close>\<close>

definition messageOrError :: "json \<Rightarrow> json \<Rightarrow> json" where
  "messageOrError d fallback = js_or (get d ''message'') (js_or (get d ''error'') fallback)"

definition requestEmailOTP ::
  "env \<Rightarrow> otp_sessions \<Rightarrow> string \<Rightarrow> (js_error + bool) \<times> otp_sessions \<times> http_request list" where
  "requestEmailOTP e sessions email =
     (let req = \<lparr>verb = POST, url = ''/auth/email-otp/request'',
                 body = JObj [(''email'', JStr email)], query = [], bearer = None\<rparr>
      in case http e req of
           Resolved status d \<Rightarrow>
             (Inr (status = 200),
              if truthy (js_and d (get d ''sid'')) then sessions(email \<mapsto> get d ''sid'') else sessions,
              [req])
         | Rejected resp msg \<Rightarrow>
             (case resp of
                Some (status, d) \<Rightarrow>
                  (Inl (Error (toString (messageOrError d (JStr ''Failed to request OTP'')))),
                   sessions, [req])
              | None \<Rightarrow> (Inl (Error ''Failed to request OTP''), sessions, [req])))"

text \<open>\<^verbatim>\<open>new Date(v).getTime()\<close>; \<open>None\<close> is \<^verbatim>\<open>NaN\<close>.\<close>

fun dateGetTime :: "env \<Rightarrow> json \<Rightarrow> int option" where
  "dateGetTime e (JNum n) = (if \<bar>n\<bar> \<le> 8640000000000000 then Some n else None)"
| "dateGetTime e (JStr s) = dateParse e s"
| "dateGetTime e (JBool b) = Some (if b then 1 else 0)"
| "dateGetTime e JNull = Some 0"
| "dateGetTime e JUndefined = None"
| "dateGetTime e JNaN = None"
| "dateGetTime e (JArr xs) = dateParse e (toString (JArr xs))"
| "dateGetTime e (JObj kvs) = dateParse e (toString (JObj kvs))"

text \<open>\<^verbatim>\<open>xs.map(f)\<close> for an \<open>f\<close> that may throw: the first exception ends the traversal.\<close>

fun mapE :: "('a \<Rightarrow> js_error + 'b) \<Rightarrow> 'a list \<Rightarrow> js_error + 'b list" where
  "mapE f [] = Inr []"
| "mapE f (x # xs) =
     (case f x of
        Inl err \<Rightarrow> Inl err
      | Inr y \<Rightarrow> (case mapE f xs of Inl err \<Rightarrow> Inl err | Inr ys \<Rightarrow> Inr (y # ys)))"

text \<open>\<^verbatim>\<open>Array.isArray(v)\<close>\<close>

fun isArray :: "json \<Rightarrow> bool" where
  "isArray (JArr xs) = True"
| "isArray v = False"

text \<open>\<^verbatim>\<open>Object.entries(v)\<close> on a value for which \<^verbatim>\<open>typeof v === 'object'\<close> and that is not null\<close>

fun objectEntries :: "json \<Rightarrow> (string \<times> json) list" where
  "objectEntries (JObj kvs) = kvs"
| "objectEntries (JArr xs) = zip (map showNat [0 ..< length xs]) xs"
| "objectEntries v = []"

text \<open>
  The callback of the inner \<^verbatim>\<open>children.map\<close> of the 422 branch. Reading a property of a
  \<^verbatim>\<open>null\<close> element throws.
\<close>

definition formatChild :: "json \<Rightarrow> json \<Rightarrow> js_error + json" where
  "formatChild errorObj child =
     (if nullish child then Inl TypeError
      else if truthy (get child ''property'') \<and> truthy (get child ''constraints'')
      then Inr (JStr (toString (get errorObj ''property'') @ ''.'' @
                      toString (get child ''property'') @ '': '' @
                      joinValues '', '' (objectValues (get child ''constraints''))))
      else Inr JNull)"

text \<open>The callback of the outer \<^verbatim>\<open>message.map\<close> of the 422 branch.\<close>

definition formatErrorObj :: "env \<Rightarrow> json \<Rightarrow> js_error + json" where
  "formatErrorObj e errorObj =
     (if nullish errorObj then Inl TypeError
      else if truthy (get errorObj ''property'') \<and> truthy (get errorObj ''constraints'')
      then Inr (JStr (toString (get errorObj ''property'') @ '': '' @
                      joinValues '', '' (objectValues (get errorObj ''constraints''))))
      else if truthy (get errorObj ''property'') \<and> truthy (get errorObj ''children'')
              \<and> isArray (get errorObj ''children'')
      then (case mapE (formatChild errorObj) (objectValues (get errorObj ''children'')) of
              Inl err \<Rightarrow> Inl err
            | Inr ys \<Rightarrow>
                (let nestedErrors = joinValues ''; '' (filter truthy ys)
                 in Inr (JStr (if nestedErrors \<noteq> [] then nestedErrors
                               else ''Invalid '' @ toString (get errorObj ''property'')))))
      else Inr (JStr (stringify e errorObj)))"

text \<open>
  The message of the \<^verbatim>\<open>Error\<close> thrown for a response of status 422 with body \<open>d\<close>: first
  from \<^verbatim>\<open>data.message\<close>, then extended by \<^verbatim>\<open>data.errors\<close>.
\<close>

definition validationMessage :: "env \<Rightarrow> json \<Rightarrow> string" where
  "validationMessage e d =
     (if \<not> truthy d then ''Validation failed''
      else
       (let errorMessage =
              (case get d ''message'' of
                 JStr s \<Rightarrow> s
               | JArr xs \<Rightarrow>
                   (case xs of
                      [] \<Rightarrow> joinValues '', '' xs
                    | x # _ \<Rightarrow>
                        if typeofObject x
                        then (case mapE (formatErrorObj e) xs of
                                Inl err \<Rightarrow> joinValues '', '' xs
                              | Inr ys \<Rightarrow>
                                  (let formattedErrors = joinValues ''; '' (filter truthy ys)
                                   in if formattedErrors \<noteq> [] then formattedErrors
                                      else ''Validation failed''))
                        else joinValues '', '' xs)
               | JObj kvs \<Rightarrow> stringify e (JObj kvs)
               | _ \<Rightarrow> ''Validation failed'');
            errors = get d ''errors''
        in if truthy errors \<and> typeofObject errors
           then (let errorDetails =
                       joinWith ''; ''
                         (map (\<lambda>(field, msgs). field @ '': '' @
                                 (case msgs of JArr ms \<Rightarrow> joinValues '', '' ms | _ \<Rightarrow> toString msgs))
                            (objectEntries errors))
                 in if errorDetails \<noteq> [] then errorMessage @ '': '' @ errorDetails
                    else errorMessage)
           else errorMessage))"

text \<open>\<^verbatim>\<open>statusMessages[status] || 'Authentication failed'\<close>\<close>

definition statusMessage :: "int \<Rightarrow> string" where
  "statusMessage status =
     (if status = 400 then ''Bad request - Please check your input''
      else if status = 401 then ''Unauthorized - Invalid credentials''
      else if status = 403
      then ''Forbidden - You don't have permission to access this resource''
      else if status = 404
      then ''Not found - The requested authentication endpoint was not found''
      else if status = 500
      then ''Server error - The authentication service is experiencing issues''
      else if status = 502
      then ''Bad gateway - The authentication service is currently unavailable''
      else if status = 503
      then ''Service unavailable - The authentication service is temporarily down''
      else if status = 504 then ''Gateway timeout - The authentication service timed out''
      else ''Authentication failed'')"

text \<open>
  The \<^verbatim>\<open>catch\<close> block of \<open>authenticateWithOTP\<close> on an axios error. For an object-valued
  message the \<^verbatim>\<open>throw\<close> of the serialized text stands inside a \<^verbatim>\<open>try\<close> whose own \<^verbatim>\<open>catch\<close>
  replaces it.
\<close>

definition authenticateCatch :: "env \<Rightarrow> (int \<times> json) option \<Rightarrow> js_error" where
  "authenticateCatch e resp =
     (case resp of
        None \<Rightarrow> Error ''Authentication failed''
      | Some (status, d) \<Rightarrow>
          if status = 422 then Error (validationMessage e d)
          else (let errorMessage = messageOrError d (JStr (statusMessage status))
                in if isArray errorMessage
                   then Error (joinValues '', '' (objectValues errorMessage))
                   else if typeofObject errorMessage \<and> errorMessage \<noteq> JNull
                   then Error ''Authentication failed with validation errors''
                   else Error (toString errorMessage)))"

text \<open>The body of the \<^verbatim>\<open>try\<close> of \<open>authenticateWithOTP\<close> once the response \<open>d\<close> has arrived.\<close>

definition tokenFromResponse :: "env \<Rightarrow> json \<Rightarrow> js_error + auth_token" where
  "tokenFromResponse e d =
     (if \<not> truthy d \<or> (\<not> truthy (get d ''token'') \<and> \<not> truthy (get d ''accessToken''))
      then Inl (Error ''Authentication failed'')
      else
       (let token = js_or (get d ''token'') (get d ''accessToken'');
            refreshToken = js_or (get d ''refreshToken'') (js_or (get d ''refresh_token'') (JStr []));
            expiresIn =
              (if \<not> truthy (get d ''expiresIn'') \<and> truthy (get d ''expireAt'')
               then (case dateGetTime e (get d ''expireAt'') of
                       None \<Rightarrow> JNaN
                     | Some expireAtTimestamp \<Rightarrow> JNum ((expireAtTimestamp - now e) div 1000))
               else get d ''expiresIn'');
            organizationId0 = js_or (get d ''organizationId'') (JStr []);
            organizationId =
              (if \<not> truthy organizationId0
                  \<and> truthy (js_and (get d ''user'') (get (get d ''user'') ''organizationId''))
               then get (get d ''user'') ''organizationId'' else organizationId0)
        in Inr \<lparr>at_token = token, at_expiresIn = expiresIn, at_organizationId = organizationId,
                at_refreshToken = (if truthy refreshToken then Some refreshToken else None)\<rparr>))"

text \<open>
  \<^verbatim>\<open>authenticateWithOTP(email, otp)\<close>. The \<^verbatim>\<open>Error('Invalid response from server')\<close> thrown
  inside the \<^verbatim>\<open>try\<close> is caught by the \<^verbatim>\<open>catch\<close> of the same function, is no axios error,
  and leaves as \<^verbatim>\<open>Error('Authentication failed')\<close>.
\<close>

definition authenticateRequest :: "otp_sessions \<Rightarrow> string \<Rightarrow> string \<Rightarrow> http_request" where
  "authenticateRequest sessions email otp =
     \<lparr>verb = POST, url = ''/auth/email-otp/authenticate'',
      body = JObj [(''email'', JStr email), (''otp'', JStr (replaceSpaceRuns otp)),
                   (''sid'', case sessions email of None \<Rightarrow> JUndefined | Some sid \<Rightarrow> sid)],
      query = [], bearer = None\<rparr>"

definition authenticateWithOTP ::
  "env \<Rightarrow> otp_sessions \<Rightarrow> string \<Rightarrow> string
    \<Rightarrow> (js_error + auth_token) \<times> otp_sessions \<times> http_request list" where
  "authenticateWithOTP e sessions email otp =
     (let req = authenticateRequest sessions email otp
      in case http e req of
           Resolved status d \<Rightarrow>
             (case tokenFromResponse e d of
                Inl err \<Rightarrow> (Inl err, sessions, [req])
              | Inr authTokens \<Rightarrow> (Inr authTokens, sessions(email := None), [req]))
         | Rejected resp msg \<Rightarrow> (Inl (authenticateCatch e resp), sessions, [req]))"

text \<open>\<^verbatim>\<open>getUserProfile(chatId)\<close>\<close>

definition getUserProfile ::
  "env \<Rightarrow> redis \<Rightarrow> int \<Rightarrow> (js_error + json) \<times> http_request list" where
  "getUserProfile e store chatId =
     (case getUserSession store chatId of
        None \<Rightarrow> (Inl (Error ''User not authenticated''), [])
      | Some session \<Rightarrow>
          (let req = \<lparr>verb = GET, url = ''/auth/me'', body = JUndefined, query = [],
                      bearer = bearerOf (at_token session)\<rparr>
           in (case http e req of
                 Resolved status d \<Rightarrow>
                   if truthy d then Inr d else Inl (Error ''Failed to fetch user profile'')
               | Rejected resp msg \<Rightarrow>
                   (case resp of
                      Some (status, d) \<Rightarrow>
                        Inl (Error (toString
                               (messageOrError d (JStr ''Failed to fetch user profile''))))
                    | None \<Rightarrow> Inl (Error ''Failed to fetch user profile'')),
               [req])))"

section \<open>Login flow: \<^verbatim>\<open>handleLogin\<close>\<close>

text \<open>
  The bot keeps its text listeners in an array: \<^verbatim>\<open>onText\<close> appends, and
  \<^verbatim>\<open>removeTextListener(re)\<close> removes the first entry whose pattern prints like \<open>re\<close>. Only
  the login flow registers listeners under \<^verbatim>\<open>/.*/\<close>, so the part of the array that counts
  is the list of those, in order of registration. A listener is a closure over the chat
  (and the email) of the flow that registered it. The timers that were set and have not
  fired yet are kept as a list; no statement of the program cancels one.

  A listener is an \<^verbatim>\<open>async\<close> function. What it does up to its first \<^verbatim>\<open>await\<close> happens
  while the bot is still offering the message to its listeners; the rest happens after
  that. The first part is the function named \<open>...Sync\<close> here, which also returns the
  rest as a task. A request to the remote service is recorded among the effects when the
  task that awaits its response runs.

  The message shown after a failed authentication is computed from the caught error by a
  chain of text tests that is not modelled; the reply carries the error.
\<close>

datatype text_listener = EmailListener int | OtpListener int string

datatype timer = EmailTimeout int | OtpTimeout int

text \<open>
  What is left of a handler after its first \<^verbatim>\<open>await\<close>: of the \<^verbatim>\<open>/login\<close> command for a chat,
  of the email listener for a chat and an email, of the OTP listener for a chat, an email
  and an OTP.
\<close>

datatype task = LoginTask int | EmailTask int string | OtpTask int string string

record world =
  catchAllListeners :: "text_listener list"
  timers :: "timer list"
  sessionStore :: redis
  emailOtpSessions :: otp_sessions
  pusherInstances :: "int list"
  effects :: "effect list"

definition emit :: "effect list \<Rightarrow> world \<Rightarrow> world" where
  "emit effs w = w\<lparr>effects := effects w @ effs\<rparr>"

text \<open>\<^verbatim>\<open>bot.removeTextListener(/.*/)\<close>\<close>

definition removeTextListener :: "world \<Rightarrow> world" where
  "removeTextListener w = w\<lparr>catchAllListeners := drop 1 (catchAllListeners w)\<rparr>"

text \<open>\<^verbatim>\<open>bot.onText(/.*/, listener)\<close>\<close>

definition onText :: "text_listener \<Rightarrow> world \<Rightarrow> world" where
  "onText l w = w\<lparr>catchAllListeners := catchAllListeners w @ [l]\<rparr>"

text \<open>\<^verbatim>\<open>setTimeout(callback, 5 * 60 * 1000)\<close>\<close>

definition setTimeout :: "timer \<Rightarrow> world \<Rightarrow> world" where
  "setTimeout t w = w\<lparr>timers := timers w @ [t]\<rparr>"

text \<open>
  The callback of \<^verbatim>\<open>bot.onText(/\/login/, ...)\<close>. Its first statement awaits
  \<^verbatim>\<open>isAuthenticated(chatId)\<close>, so all of it is the task.
\<close>

definition loginTask :: "int \<Rightarrow> world \<Rightarrow> world" where
  "loginTask chatId w =
     (if isAuthenticated (sessionStore w) chatId
      then emit [SendMessage chatId AlreadyLoggedIn] w
      else setTimeout (EmailTimeout chatId)
             (onText (EmailListener chatId) (emit [SendMessage chatId AskEmail] w)))"

definition loginCommand :: "world \<Rightarrow> message \<Rightarrow> world" where
  "loginCommand w msg = loginTask (msg_chat msg) w"

text \<open>\<^verbatim>\<open>initializePusher(chatId, bot)\<close>: it returns without effect, or subscribes the chat.\<close>

definition initializePusher :: "int \<Rightarrow> world \<Rightarrow> world" where
  "initializePusher chatId w =
     (case getUserSession (sessionStore w) chatId of
        None \<Rightarrow> w
      | Some session \<Rightarrow>
          if \<not> truthy (at_token session) \<or> \<not> truthy (at_organizationId session) then w
          else if chatId \<in> set (pusherInstances w) then w
          else emit [PusherSubscribe (''private-org-'' @ toString (at_organizationId session))]
                 (w\<lparr>pusherInstances := pusherInstances w @ [chatId]\<rparr>))"

text \<open>
  The listener that waits for the email, registered by the chat \<open>chatId\<close>. Up to its first
  \<^verbatim>\<open>await\<close> it filters by chat, removes a listener and tests the email; the first \<^verbatim>\<open>await\<close>
  is on the invalid-format message, after which it returns, or on \<open>requestEmailOTP\<close>.
\<close>

definition emailListenerSync :: "int \<Rightarrow> world \<Rightarrow> message \<Rightarrow> world \<times> task list" where
  "emailListenerSync chatId w emailMsg =
     (if msg_chat emailMsg \<noteq> chatId then (w, [])
      else
       (let email = (case msg_text emailMsg of None \<Rightarrow> [] | Some t \<Rightarrow> trim t);
            w1 = removeTextListener w
        in if \<not> regexTest EMAIL_REGEX email
           then (emit [SendMessage chatId InvalidEmailFormat] w1, [])
           else (w1, [EmailTask chatId email])))"

definition emailTask :: "env \<Rightarrow> int \<Rightarrow> string \<Rightarrow> world \<Rightarrow> world" where
  "emailTask e chatId email w =
     (case requestEmailOTP e (emailOtpSessions w) email of
        (Inl err, sessions', reqs) \<Rightarrow>
          emit (map Http reqs @ [SendMessage chatId (FailedToSendOtp err)])
            (w\<lparr>emailOtpSessions := sessions'\<rparr>)
      | (Inr ok, sessions', reqs) \<Rightarrow>
          setTimeout (OtpTimeout chatId)
            (onText (OtpListener chatId email)
               (emit (map Http reqs @ [SendMessage chatId (OtpSent email)])
                  (w\<lparr>emailOtpSessions := sessions'\<rparr>))))"

text \<open>
  The listener that waits for the OTP, registered for the chat and the email. Its first
  \<^verbatim>\<open>await\<close> is on the invalid-format message, after which it returns, or on the loading
  message.
\<close>

definition otpListenerSync ::
  "int \<Rightarrow> string \<Rightarrow> world \<Rightarrow> message \<Rightarrow> world \<times> task list" where
  "otpListenerSync chatId email w otpMsg =
     (if msg_chat otpMsg \<noteq> chatId then (w, [])
      else
       (let otp = (case msg_text otpMsg of None \<Rightarrow> [] | Some t \<Rightarrow> trim t);
            w1 = removeTextListener w
        in if \<not> regexTest OTP_REGEX otp
           then (emit [SendMessage chatId InvalidOtpFormat] w1, [])
           else (emit [SendMessage chatId Authenticating] w1, [OtpTask chatId email otp])))"

definition otpTask :: "env \<Rightarrow> int \<Rightarrow> string \<Rightarrow> string \<Rightarrow> world \<Rightarrow> world" where
  "otpTask e chatId email otp w2 =
     (case authenticateWithOTP e (emailOtpSessions w2) email otp of
        (Inl err, sessions', reqs) \<Rightarrow>
          emit (map Http reqs @ [SendMessage chatId (AuthenticationFailed err)])
            (w2\<lparr>emailOtpSessions := sessions'\<rparr>)
      | (Inr authToken, sessions', reqs) \<Rightarrow>
          (let w3 = emit (map Http reqs)
                      (w2\<lparr>emailOtpSessions := sessions',
                          sessionStore := storeUserSession (sessionStore w2) chatId authToken\<rparr>)
           in case getUserProfile e (sessionStore w3) chatId of
                (Inl err, reqs') \<Rightarrow>
                  emit (map Http reqs' @ [SendMessage chatId (AuthenticationFailed err)]) w3
              | (Inr profile, reqs') \<Rightarrow>
                  (let w4 = emit (map Http reqs') w3;
                       w5 = (if truthy (get profile ''organizationId'')
                             then w4\<lparr>sessionStore :=
                                    storeUserSession (sessionStore w4) chatId
                                      (authToken\<lparr>at_organizationId :=
                                         get profile ''organizationId''\<rparr>)\<rparr>
                             else w4);
                       w6 = initializePusher chatId w5
                   in emit [DeleteMessage chatId,
                            SendMessage chatId
                              (Welcome (toString (get profile ''firstName'')))] w6)))"

fun runTask :: "env \<Rightarrow> task \<Rightarrow> world \<Rightarrow> world" where
  "runTask e (LoginTask chatId) w = loginTask chatId w"
| "runTask e (EmailTask chatId email) w = emailTask e chatId email w"
| "runTask e (OtpTask chatId email otp) w = otpTask e chatId email otp w"

definition runTasks :: "env \<Rightarrow> task list \<Rightarrow> world \<Rightarrow> world" where
  "runTasks e ts w = foldl (\<lambda>w t. runTask e t w) w ts"

text \<open>A listener run from its call to its end, with nothing in between.\<close>

definition loginEmailListener :: "env \<Rightarrow> int \<Rightarrow> world \<Rightarrow> message \<Rightarrow> world" where
  "loginEmailListener e chatId w emailMsg =
     (case emailListenerSync chatId w emailMsg of (w1, ts) \<Rightarrow> runTasks e ts w1)"

definition loginOtpListener :: "env \<Rightarrow> int \<Rightarrow> string \<Rightarrow> world \<Rightarrow> message \<Rightarrow> world" where
  "loginOtpListener e chatId email w otpMsg =
     (case otpListenerSync chatId email w otpMsg of (w2, ts) \<Rightarrow> runTasks e ts w2)"

text \<open>The two timer callbacks.\<close>

fun timerCallback :: "timer \<Rightarrow> world \<Rightarrow> world" where
  "timerCallback (EmailTimeout chatId) w =
     emit [SendMessage chatId EmailTimeoutNotice] (removeTextListener w)"
| "timerCallback (OtpTimeout chatId) w =
     emit [SendMessage chatId OtpTimeoutNotice] (removeTextListener w)"

text \<open>A timer that was set fires once, five minutes after it was set.\<close>

definition timerFires :: "timer \<Rightarrow> world \<Rightarrow> world" where
  "timerFires t w =
     (if t \<in> set (timers w) then timerCallback t (w\<lparr>timers := remove1 t (timers w)\<rparr>) else w)"

subsection \<open>Delivery of a text message\<close>

fun listenerSync :: "text_listener \<Rightarrow> world \<Rightarrow> message \<Rightarrow> world \<times> task list" where
  "listenerSync (EmailListener chatId) w msg = emailListenerSync chatId w msg"
| "listenerSync (OtpListener chatId email) w msg = otpListenerSync chatId email w msg"

text \<open>
  The bot offers a text to its listeners with \<^verbatim>\<open>Array.prototype.some\<close>: the indices below
  the length the array had at the start are visited in order, each read from the array
  as it is at that moment. Each listener runs up to its first \<^verbatim>\<open>await\<close>; the tasks are
  collected in that order.
\<close>

fun deliverFrom :: "nat \<Rightarrow> nat \<Rightarrow> world \<times> task list \<Rightarrow> message \<Rightarrow> world \<times> task list" where
  "deliverFrom 0 i wt msg = wt"
| "deliverFrom (Suc n) i (w, ts) msg =
     deliverFrom n (Suc i)
       (if i < length (catchAllListeners w)
        then (case listenerSync (catchAllListeners w ! i) w msg of (w', ts') \<Rightarrow> (w', ts @ ts'))
        else (w, ts)) msg"

text \<open>\<^verbatim>\<open>/\/login/.test(s)\<close>, and in general: \<open>pat\<close> occurs in \<open>s\<close>.\<close>

fun containsText :: "string \<Rightarrow> string \<Rightarrow> bool" where
  "containsText pat [] = (pat = [])"
| "containsText pat (c # cs) = (take (length pat) (c # cs) = pat \<or> containsText pat cs)"

text \<open>
  A message is offered to the text listeners only when it has a text and the text is not
  empty. The \<^verbatim>\<open>/login\<close> command, registered at start-up, comes before the catch-all
  listeners and is called when the text contains \<^verbatim>\<open>/login\<close>. After the message has been
  offered to all of them, the tasks are run, in the order in which they were started:
  the operations awaited are taken to complete in that order and before the next event.
\<close>

definition onTextMessage :: "env \<Rightarrow> world \<Rightarrow> message \<Rightarrow> world" where
  "onTextMessage e w msg =
     (case msg_text msg of
        None \<Rightarrow> w
      | Some t \<Rightarrow>
          if t = [] then w
          else (case deliverFrom (length (catchAllListeners w)) 0
                       (w, if containsText ''/login'' t then [LoginTask (msg_chat msg)] else [])
                       msg of
                  (w', ts) \<Rightarrow> runTasks e ts w'))"

datatype event = TextMessage message | TimerFires timer

fun step :: "env \<Rightarrow> world \<Rightarrow> event \<Rightarrow> world" where
  "step e w (TextMessage msg) = onTextMessage e w msg"
| "step e w (TimerFires t) = timerFires t w"

definition run :: "env \<Rightarrow> world \<Rightarrow> event list \<Rightarrow> world" where
  "run e w evs = foldl (step e) w evs"

definition initialWorld :: world where
  "initialWorld = \<lparr>catchAllListeners = [], timers = [], sessionStore = Map.empty,
     emailOtpSessions = Map.empty, pusherInstances = [], effects = []\<rparr>"

section \<open>Validation errors, as the specification describes them\<close>

text \<open>
  A per-field validation error: a property with its constraints (name and text), or a
  property with one level of child errors.
\<close>

datatype child_violation = ChildViolation string "(string \<times> string) list"

datatype violation =
    FieldViolation string "(string \<times> string) list"
  | NestedViolation string "child_violation list"

text \<open>The object \<open>v\<close> is the error of a property \<open>p\<close> with constraints \<open>cs\<close>.\<close>

definition describesField :: "string \<Rightarrow> (string \<times> string) list \<Rightarrow> json \<Rightarrow> bool" where
  "describesField p cs v =
     (p \<noteq> [] \<and> get v ''property'' = JStr p
      \<and> get v ''constraints'' = JObj (map (\<lambda>(k, c). (k, JStr c)) cs))"

fun describesChild :: "child_violation \<Rightarrow> json \<Rightarrow> bool" where
  "describesChild (ChildViolation q cs) v = describesField q cs v"

fun describes :: "violation \<Rightarrow> json \<Rightarrow> bool" where
  "describes (FieldViolation p cs) v = describesField p cs v"
| "describes (NestedViolation p chs) v =
     (p \<noteq> [] \<and> chs \<noteq> [] \<and> get v ''property'' = JStr p \<and> get v ''constraints'' = JUndefined
      \<and> (case get v ''children'' of
            JArr children \<Rightarrow> list_all2 describesChild chs children
          | _ \<Rightarrow> False))"

text \<open>
  The text the specification asks for: fragments \<open>property: constraint\<close>, a child as
  \<open>parent.child: constraint\<close>, all joined with \<open>; \<close>. It is compared with what
  \<open>validationMessage\<close> computes from the response.
\<close>

definition constraintTexts :: "(string \<times> string) list \<Rightarrow> string" where
  "constraintTexts cs = joinWith '', '' (map snd cs)"

fun childFragment :: "string \<Rightarrow> child_violation \<Rightarrow> string" where
  "childFragment p (ChildViolation q cs) = p @ ''.'' @ q @ '': '' @ constraintTexts cs"

fun fragment :: "violation \<Rightarrow> string" where
  "fragment (FieldViolation p cs) = p @ '': '' @ constraintTexts cs"
| "fragment (NestedViolation p chs) = joinWith ''; '' (map (childFragment p) chs)"

definition renderViolations :: "violation list \<Rightarrow> string" where
  "renderViolations vs = joinWith ''; '' (map fragment vs)"

text \<open>
  The \<^verbatim>\<open>errors\<close> object of a response body, as fields with their messages, and the text
  the program appends for it: \<open>field: message, message\<close>, joined with \<open>; \<close>.
\<close>

definition encodeErrors :: "(string \<times> string list) list \<Rightarrow> json" where
  "encodeErrors es = JObj (map (\<lambda>(f, ms). (f, JArr (map JStr ms))) es)"

definition renderErrors :: "(string \<times> string list) list \<Rightarrow> string" where
  "renderErrors es = joinWith ''; '' (map (\<lambda>(f, ms). f @ '': '' @ joinWith '', '' ms) es)"

section \<open>Concrete runs\<close>

text \<open>
  \<^verbatim>\<open>Number.prototype.toString\<close> on the two amounts of the runs below, which is all they
  need of it.
\<close>

definition demoNumberToString :: "number \<Rightarrow> string" where
  "demoNumberToString n =
     (if n = Num (21 / 2) then ''10.5'' else if n = Num 10 then ''10'' else ''NaN'')"

text \<open>A chat with a stored session, and a service that accepts every request.\<close>

definition demoToken :: auth_token where
  "demoToken = \<lparr>at_token = JStr ''tok'', at_expiresIn = JNum 3600,
                 at_organizationId = JStr ''org1'', at_refreshToken = None\<rparr>"

definition demoStore :: redis where
  "demoStore = [7 \<mapsto> demoToken]"

definition okEnv :: env where
  "okEnv = \<lparr>http = (\<lambda>req. Resolved 200 (JObj [(''id'', JStr ''tx1'')])),
            now = 0, dateParse = (\<lambda>s. None), numberToString = demoNumberToString,
            stringify = (\<lambda>v. ''{}'')\<rparr>"

text \<open>A service that refuses the transfer with a message of its own.\<close>

definition failEnv :: env where
  "failEnv = \<lparr>http = (\<lambda>req. if url req = ''/transfers/send''
                 then Rejected (Some (400, JObj [(''message'', JStr ''Insufficient balance'')]))
                        ''Request failed with status code 400''
                 else Resolved 200 (JObj [(''id'', JStr ''w1'')])),
            now = 0, dateParse = (\<lambda>s. None), numberToString = demoNumberToString,
            stringify = (\<lambda>v. ''{}'')\<rparr>"

text \<open>A service that is down: every request fails with a response of status 503.\<close>

definition downEnv :: env where
  "downEnv = \<lparr>http = (\<lambda>req. Rejected (Some (503, JObj [(''message'', JStr ''Service down'')]))
                        ''Request failed with status code 503''),
            now = 0, dateParse = (\<lambda>s. None), numberToString = demoNumberToString,
            stringify = (\<lambda>v. ''{}'')\<rparr>"

text \<open>The send flow of chat 7 after recipient, amount and description have been given.\<close>

definition draftFlow :: send_flow where
  "draftFlow = \<lparr>sf_chatId = 7,
      sf_userStates = [7 \<mapsto> \<lparr>sd_recipient = ''a@b.com'', sd_amount = Some (Num (21 / 2)),
                                sd_description = Some []\<rparr>],
      sf_listener = None\<rparr>"

definition confirmTap :: callback_query where
  "confirmTap = \<lparr>cq_id = ''q1'', cq_chat = Some 7, cq_data = Some ''confirm_send''\<rparr>"

text \<open>The bank flow of chat 7 after the amount has been given.\<close>

definition bankDraftFlow :: bank_flow where
  "bankDraftFlow = \<lparr>bf_chatId = 7, bf_userStates = [7 \<mapsto> Num (21 / 2)], bf_listener = False,
      bf_callback = True\<rparr>"

definition bankConfirmTap :: callback_query where
  "bankConfirmTap = \<lparr>cq_id = ''q2'', cq_chat = Some 7, cq_data = Some ''confirm_bank_withdraw''\<rparr>"

text \<open>
  A service that answers the authenticate call with only \<^verbatim>\<open>accessToken\<close> and an \<^verbatim>\<open>expireAt\<close>
  that lies 300 seconds after the clock of the environment.
\<close>

definition tokenEnv :: env where
  "tokenEnv = \<lparr>http = (\<lambda>req. Resolved 200
                 (JObj [(''accessToken'', JStr ''abc''), (''expireAt'', JNum 1700000300000)])),
            now = 1700000000000, dateParse = (\<lambda>s. None), numberToString = demoNumberToString,
            stringify = (\<lambda>v. ''{}'')\<rparr>"

text \<open>A 422 body with one field error and one error with a child.\<close>

definition violationObjects :: "json list" where
  "violationObjects =
     [JObj [(''property'', JStr ''email''), (''children'', JArr []),
            (''constraints'', JObj [(''isEmail'', JStr ''email must be an email''),
                                    (''isNotEmpty'', JStr ''email should not be empty'')])],
      JObj [(''property'', JStr ''user''),
            (''children'', JArr [JObj [(''property'', JStr ''otp''),
                                       (''constraints'', JObj [(''len'', JStr ''otp too short'')])]])]]"

definition violationBody :: json where
  "violationBody = JObj [(''statusCode'', JNum 422), (''message'', JArr violationObjects),
                         (''error'', JStr ''Unprocessable Entity'')]"

definition violationList :: "violation list" where
  "violationList =
     [FieldViolation ''email'' [(''isEmail'', ''email must be an email''),
                                (''isNotEmpty'', ''email should not be empty'')],
      NestedViolation ''user'' [ChildViolation ''otp'' [(''len'', ''otp too short'')]]]"

definition violationEnv :: env where
  "violationEnv = \<lparr>http = (\<lambda>req. Rejected (Some (422, violationBody))
                        ''Request failed with status code 422''),
            now = 0, dateParse = (\<lambda>s. None), numberToString = demoNumberToString,
            stringify = (\<lambda>v. ''{}'')\<rparr>"

text \<open>
  A service for a whole login: the OTP request returns a session id, the authenticate call
  a token, and the profile a first name and an organization.
\<close>

definition loginEnv :: env where
  "loginEnv = \<lparr>http = (\<lambda>req.
                 if url req = ''/auth/email-otp/request''
                 then Resolved 200 (JObj [(''email'', JStr ''a@b.co''), (''sid'', JStr ''s1'')])
                 else if url req = ''/auth/email-otp/authenticate''
                 then Resolved 200 (JObj [(''accessToken'', JStr ''abc''),
                                          (''expireAt'', JNum 1700000300000)])
                 else Resolved 200 (JObj [(''firstName'', JStr ''Ada''),
                                          (''organizationId'', JStr ''org1'')])),
            now = 1700000000000, dateParse = (\<lambda>s. None), numberToString = demoNumberToString,
            stringify = (\<lambda>v. ''{}'')\<rparr>"

text \<open>Chat 7 logs in: the command, the email, the OTP.\<close>

definition loginEvents :: "event list" where
  "loginEvents =
     [TextMessage \<lparr>msg_chat = 7, msg_text = Some ''/login''\<rparr>,
      TextMessage \<lparr>msg_chat = 7, msg_text = Some ''a@b.co''\<rparr>,
      TextMessage \<lparr>msg_chat = 7, msg_text = Some ''12 34 56''\<rparr>]"



text \<open>Chat 7 at the OTP step.\<close>

definition awaitingOtp :: world where
  "awaitingOtp = run loginEnv initialWorld (take 2 loginEvents)"

text \<open>A 422 body with a field error and an \<^verbatim>\<open>errors\<close> object.\<close>

definition errorsBody :: json where
  "errorsBody =
     JObj [(''statusCode'', JNum 422),
           (''message'', JArr [JObj [(''property'', JStr ''email''),
                                     (''constraints'',
                                      JObj [(''isEmail'', JStr ''email must be an email'')])]]),
           (''errors'', JObj [(''otp'', JArr [JStr ''too short'', JStr ''digits only''])])]"

definition errorsEnv :: env where
  "errorsEnv = \<lparr>http = (\<lambda>req. Rejected (Some (422, errorsBody))
                        ''Request failed with status code 422''),
            now = 0, dateParse = (\<lambda>s. None), numberToString = demoNumberToString,
            stringify = (\<lambda>v. ''{}'')\<rparr>"

text \<open>A 422 body with a field error whose constraint is an object.\<close>

definition objectConstraintBody :: json where
  "objectConstraintBody =
     JObj [(''statusCode'', JNum 422),
           (''message'', JArr [JObj [(''property'', JStr ''otp''),
                                     (''constraints'',
                                      JObj [(''length'', JObj [(''min'', JNum 6)])])]])]"

definition objectConstraintEnv :: env where
  "objectConstraintEnv = \<lparr>http = (\<lambda>req. Rejected (Some (422, objectConstraintBody))
                        ''Request failed with status code 422''),
            now = 0, dateParse = (\<lambda>s. None), numberToString = demoNumberToString,
            stringify = (\<lambda>v. ''{}'')\<rparr>"

text \<open>
  The send flow of chat 7 after the recipient has been given and a cancel button of an
  earlier confirmation message has been tapped.
\<close>

definition cancelTap :: callback_query where
  "cancelTap = \<lparr>cq_id = ''q0'', cq_chat = Some 7, cq_data = Some ''cancel_send''\<rparr>"

definition recipientGiven :: send_flow where
  "recipientGiven =
     (case send_on_message (fst (startSendConversation 7))
             \<lparr>msg_chat = 7, msg_text = Some ''a@b.com''\<rparr> of
        Inr (f, effs) \<Rightarrow> f
      | Inl err \<Rightarrow> fst (startSendConversation 7))"

definition cancelledFlow :: send_flow where
  "cancelledFlow = fst (send_on_callback_query okEnv demoStore recipientGiven cancelTap)"

text \<open>Chats 7 and 8 have both sent \<^verbatim>\<open>/login\<close> and are asked for their email.\<close>

definition twoLogins :: world where
  "twoLogins = run loginEnv initialWorld
     [TextMessage \<lparr>msg_chat = 7, msg_text = Some ''/login''\<rparr>,
      TextMessage \<lparr>msg_chat = 8, msg_text = Some ''/login''\<rparr>]"

text \<open>Chat 8 answers with a text that is no email, then with an email.\<close>

definition noEmail :: event where
  "noEmail = TextMessage \<lparr>msg_chat = 8, msg_text = Some ''not-an-email''\<rparr>"

definition thenEmail :: event where
  "thenEmail = TextMessage \<lparr>msg_chat = 8, msg_text = Some ''b@c.de''\<rparr>"

section \<open>Properties of the send flow\<close>

lemma AMOUNT_REGEX_empty: "\<not> regexTest AMOUNT_REGEX []"
  by code_simp

lemma sendFunds_failure_message:
  assumes "sendFunds e token recipient amount description = (Inr r, reqs)"
      and "\<not> (success r \<and> truthy (data r))"
  shows "get (data r) ''message'' = JUndefined"
proof (cases "http e \<lparr>verb = POST, url = ''/transfers/send'',
                 body = JObj [(''recipient'', JStr recipient), (''amount'', JStr amount),
                   (''description'', js_or (JStr description) (JStr ''Sent via Telegram''))],
                 query = [], bearer = bearerOf token\<rparr>")
  case (Resolved st d)
  with assms have r: "r = \<lparr>success = True, data = d, error = JUndefined\<rparr>"
    by (auto simp: sendFunds_def Let_def)
  with assms(2) have "\<not> truthy d" by simp
  then have "get d ''message'' = JUndefined" by (cases d) auto
  with r show ?thesis by simp
next
  case (Rejected resp msg)
  with assms show ?thesis by (auto simp: sendFunds_def Let_def)
qed

lemma draftFlow_confirm_ok:
  "sf_chatId (fst (send_on_callback_query okEnv demoStore draftFlow confirmTap)) = 7"
  "sf_userStates (fst (send_on_callback_query okEnv demoStore draftFlow confirmTap)) 7 = None"
  "snd (send_on_callback_query okEnv demoStore draftFlow confirmTap) =
       [AnswerCallbackQuery ''q1'' None,
        Http \<lparr>verb = GET, url = ''/wallets/default'', body = JUndefined, query = [],
              bearer = Some ''tok''\<rparr>,
        SendMessage 7 ProcessingTransfer,
        Http \<lparr>verb = POST, url = ''/transfers/send'',
              body = JObj [(''recipient'', JStr ''a@b.com''), (''amount'', JStr ''10.5''),
                           (''description'', JStr ''Sent via Telegram'')],
              query = [], bearer = Some ''tok''\<rparr>,
        SendMessage 7 (TransferSuccessful (Num (21 / 2)) ''a@b.com'' ''tx1'')]"
  by code_simp+

lemma confirmTap_fields:
  "cq_chat confirmTap = Some 7" "cq_data confirmTap = Some ''confirm_send''"
  "cq_id confirmTap = ''q1''"
  by (simp_all add: confirmTap_def)

text \<open>
  C1. A \<^verbatim>\<open>confirm_send\<close> event for a chat whose draft is no longer in \<^verbatim>\<open>userStates\<close> is
  answered with the "transfer data not found" message and nothing else: the flow is left
  as it is and no request is issued, so the send operation is not invoked.
\<close>

theorem confirm_without_draft_reports_not_found:
  assumes "sf_userStates f (sf_chatId f) = None"
      and "cq_chat cq = Some (sf_chatId f)"
      and "cq_data cq = Some ''confirm_send''"
  shows "send_on_callback_query e store f cq =
           (f, [AnswerCallbackQuery (cq_id cq) None,
                SendMessage (sf_chatId f) TransferDataNotFound])"
  using assms by (simp add: send_on_callback_query_def confirmSend_def)

text \<open>
  Two confirm taps on the completed draft of chat 7: the first one submits the transfer
  and discards the draft, the second one is answered with "transfer data not found".
\<close>

theorem confirm_without_draft_witness:
  "sf_userStates (fst (send_on_callback_query okEnv demoStore draftFlow confirmTap)) 7 = None
   \<and> snd (send_on_callback_query okEnv demoStore draftFlow confirmTap) =
       [AnswerCallbackQuery ''q1'' None,
        Http \<lparr>verb = GET, url = ''/wallets/default'', body = JUndefined, query = [],
              bearer = Some ''tok''\<rparr>,
        SendMessage 7 ProcessingTransfer,
        Http \<lparr>verb = POST, url = ''/transfers/send'',
              body = JObj [(''recipient'', JStr ''a@b.com''), (''amount'', JStr ''10.5''),
                           (''description'', JStr ''Sent via Telegram'')],
              query = [], bearer = Some ''tok''\<rparr>,
        SendMessage 7 (TransferSuccessful (Num (21 / 2)) ''a@b.com'' ''tx1'')]
   \<and> snd (send_on_callback_query okEnv demoStore
             (fst (send_on_callback_query okEnv demoStore draftFlow confirmTap)) confirmTap) =
       [AnswerCallbackQuery ''q1'' None, SendMessage 7 TransferDataNotFound]"
proof -
  let ?f1 = "fst (send_on_callback_query okEnv demoStore draftFlow confirmTap)"
  from confirm_without_draft_reports_not_found [of ?f1 confirmTap okEnv demoStore]
  have "send_on_callback_query okEnv demoStore ?f1 confirmTap =
           (?f1, [AnswerCallbackQuery ''q1'' None, SendMessage 7 TransferDataNotFound])"
    by (simp add: draftFlow_confirm_ok confirmTap_fields)
  then have "snd (send_on_callback_query okEnv demoStore ?f1 confirmTap) =
       [AnswerCallbackQuery ''q1'' None, SendMessage 7 TransferDataNotFound]"
    by simp
  then show ?thesis
    by (simp add: draftFlow_confirm_ok)
qed

text \<open>
  C2, as stated, fails. The service refuses the transfer of chat 7 with the message
  "Insufficient balance", which \<open>sendFunds\<close> returns under \<^verbatim>\<open>data.error\<close>; after the
  confirm event the draft is still in \<^verbatim>\<open>userStates\<close>, and the text reported is
  "Unknown error".
\<close>

theorem failed_submission_keeps_draft_counterexample:
  "sf_userStates (fst (send_on_callback_query failEnv demoStore draftFlow confirmTap)) 7
     = Some \<lparr>sd_recipient = ''a@b.com'', sd_amount = Some (Num (21 / 2)), sd_description = Some []\<rparr>
   \<and> snd (send_on_callback_query failEnv demoStore draftFlow confirmTap) =
       [AnswerCallbackQuery ''q1'' None,
        Http \<lparr>verb = GET, url = ''/wallets/default'', body = JUndefined, query = [],
              bearer = Some ''tok''\<rparr>,
        SendMessage 7 ProcessingTransfer,
        Http \<lparr>verb = POST, url = ''/transfers/send'',
              body = JObj [(''recipient'', JStr ''a@b.com''), (''amount'', JStr ''10.5''),
                           (''description'', JStr ''Sent via Telegram'')],
              query = [], bearer = Some ''tok''\<rparr>,
        SendMessage 7 (TransferFailed ''Unknown error'')]
   \<and> fst (sendFunds failEnv (JStr ''tok'') ''a@b.com'' ''10.5'' []) =
        Inr \<lparr>success = False, data = JObj [(''error'', JStr ''Insufficient balance'')],
             error = JUndefined\<rparr>"
  by code_simp

text \<open>
  C2, amended. When the submission call returns a failure result after a confirm event,
  the engine reports a transfer-failed message, after the processing notice, and leaves
  the flow as it was: the draft of the chat stays in \<^verbatim>\<open>userStates\<close>.
\<close>

theorem failed_submission_reports_and_keeps_draft:
  assumes draft: "sf_userStates f (sf_chatId f) = Some d" "sd_amount d = Some a"
      and tap: "cq_chat cq = Some (sf_chatId f)" "cq_data cq = Some ''confirm_send''"
      and token: "truthy (getUserToken store (sf_chatId f))"
      and wallet: "getDefaultWallet e store (sf_chatId f) = (Inr w, reqs)" "truthy w"
      and failed: "sendFunds e (getUserToken store (sf_chatId f)) (sd_recipient d)
                     (numberToString e a) (case sd_description d of None \<Rightarrow> [] | Some t \<Rightarrow> t)
                   = (Inr r, reqs')" "\<not> (success r \<and> truthy (data r))"
  shows "\<exists>t. send_on_callback_query e store f cq =
           (f, AnswerCallbackQuery (cq_id cq) None # map Http reqs @
               [SendMessage (sf_chatId f) ProcessingTransfer] @ map Http reqs' @
               [SendMessage (sf_chatId f) (TransferFailed t)])"
proof -
  have "get (data r) ''message'' = JUndefined"
    using sendFunds_failure_message [OF failed] .
  then show ?thesis
    using assms by (auto simp: send_on_callback_query_def confirmSend_def js_or_def Let_def)
qed

lemma failRun:
  "sf_chatId draftFlow = 7"
  "sf_userStates draftFlow 7 = Some \<lparr>sd_recipient = ''a@b.com'', sd_amount = Some (Num (21 / 2)), sd_description = Some []\<rparr>"
  "truthy (getUserToken demoStore 7)"
  "getUserToken demoStore 7 = JStr ''tok''"
  "getDefaultWallet failEnv demoStore 7 = (Inr (JObj [(''id'', JStr ''w1'')]),
     [\<lparr>verb = GET, url = ''/wallets/default'', body = JUndefined, query = [], bearer = Some ''tok''\<rparr>])"
  "numberToString failEnv (Num (21 / 2)) = ''10.5''"
  "sendFunds failEnv (JStr ''tok'') ''a@b.com'' ''10.5'' [] =
      (Inr \<lparr>success = False, data = JObj [(''error'', JStr ''Insufficient balance'')], error = JUndefined\<rparr>,
       [\<lparr>verb = POST, url = ''/transfers/send'',
              body = JObj [(''recipient'', JStr ''a@b.com''), (''amount'', JStr ''10.5''),
                           (''description'', JStr ''Sent via Telegram'')],
              query = [], bearer = Some ''tok''\<rparr>])"
  by code_simp+

text \<open>The refused transfer of chat 7.\<close>

theorem failed_submission_witness:
  "\<exists>t. send_on_callback_query failEnv demoStore draftFlow confirmTap =
     (draftFlow, [AnswerCallbackQuery ''q1'' None,
        Http \<lparr>verb = GET, url = ''/wallets/default'', body = JUndefined, query = [],
              bearer = Some ''tok''\<rparr>,
        SendMessage 7 ProcessingTransfer,
        Http \<lparr>verb = POST, url = ''/transfers/send'',
              body = JObj [(''recipient'', JStr ''a@b.com''), (''amount'', JStr ''10.5''),
                           (''description'', JStr ''Sent via Telegram'')],
              query = [], bearer = Some ''tok''\<rparr>,
        SendMessage 7 (TransferFailed t)])"
  using failed_submission_reports_and_keeps_draft [of draftFlow
      "\<lparr>sd_recipient = ''a@b.com'', sd_amount = Some (Num (21 / 2)), sd_description = Some []\<rparr>"
      "Num (21 / 2)" confirmTap demoStore failEnv "JObj [(''id'', JStr ''w1'')]"
      "[\<lparr>verb = GET, url = ''/wallets/default'', body = JUndefined, query = [], bearer = Some ''tok''\<rparr>]"
      "\<lparr>success = False, data = JObj [(''error'', JStr ''Insufficient balance'')], error = JUndefined\<rparr>"
      "[\<lparr>verb = POST, url = ''/transfers/send'',
              body = JObj [(''recipient'', JStr ''a@b.com''), (''amount'', JStr ''10.5''),
                           (''description'', JStr ''Sent via Telegram'')],
              query = [], bearer = Some ''tok''\<rparr>]"]
  by (simp add: failRun confirmTap_fields)

lemma isFail_not_nullable: "isFail r \<Longrightarrow> \<not> nullable r"
  by (induction r) auto

lemma isFail_deriv: "isFail r \<Longrightarrow> isFail (deriv c r)"
  by (induction r) (auto simp: isFail_not_nullable)

lemma isFail_no_match: "isFail r \<Longrightarrow> \<not> regexTest r s"
  by (induction s arbitrary: r) (auto simp: isFail_not_nullable isFail_deriv)

lemma deriv_unaccepted: "\<not> accepts r c \<Longrightarrow> isFail (deriv c r)"
  by (induction r) auto

lemma accepts_deriv: "accepts (deriv c r) x \<Longrightarrow> accepts r x"
  by (induction r) (auto split: if_splits)

lemma match_accepts: "regexTest r s \<Longrightarrow> \<forall>c \<in> set s. accepts r c"
proof (induction s arbitrary: r)
  case Nil
  then show ?case by simp
next
  case (Cons c cs)
  then have m: "regexTest (deriv c r) cs" by simp
  have "accepts r c"
    using m deriv_unaccepted [of r c] isFail_no_match by blast
  moreover have "\<forall>x \<in> set cs. accepts r x"
    using Cons.IH [OF m] accepts_deriv by blast
  ultimately show ?case by simp
qed

lemma digit_not_space: "isDigit c \<Longrightarrow> \<not> isSpace c"
  by (simp add: isDigit_def isSpace_def Let_def)

lemma point_not_space: "\<not> isSpace (CHR ''.'')"
  by (simp add: isSpace_def)

lemma trim_no_space: "\<forall>c \<in> set s. \<not> isSpace c \<Longrightarrow> trim s = s"
proof -
  assume a: "\<forall>c \<in> set s. \<not> isSpace c"
  have d: "dropWhile isSpace xs = xs" if "\<forall>c \<in> set xs. \<not> isSpace c" for xs
    using that by (cases xs) auto
  from a have "dropWhile isSpace s = s" by (rule d)
  moreover from a have "dropWhile isSpace (rev s) = rev s" by (intro d) simp
  ultimately show ?thesis by (simp add: trim_def)
qed

lemma amount_text_trimmed: "regexTest AMOUNT_REGEX t \<Longrightarrow> trim t = t"
proof (rule trim_no_space, rule ballI)
  fix c assume "regexTest AMOUNT_REGEX t" "c \<in> set t"
  then have "accepts AMOUNT_REGEX c" using match_accepts by blast
  then have "isDigit c \<or> c = CHR ''.''"
    by (auto simp: AMOUNT_REGEX_def oneOrMore_def optional_def oneToSix_def chr_def)
  then show "\<not> isSpace c" using digit_not_space point_not_space by auto
qed

lemma rejected_amounts:
  "\<not> (regexTest AMOUNT_REGEX (trim ''0'') \<and> \<not> numberLeZero (parseFloat (trim ''0'')))"
  "\<not> (regexTest AMOUNT_REGEX (trim ''-1'') \<and> \<not> numberLeZero (parseFloat (trim ''-1'')))"
  "\<not> (regexTest AMOUNT_REGEX (trim ''abc'') \<and> \<not> numberLeZero (parseFloat (trim ''abc'')))"
  "\<not> (regexTest AMOUNT_REGEX (trim ''1.1234567'') \<and> \<not> numberLeZero (parseFloat (trim ''1.1234567'')))"
  by code_simp+

text \<open>
  What holds at the amount step of the send flow while the draft of the recipient step
  is present, and of the bank flow: a text whose trimmed form matches \<open>AMOUNT_REGEX\<close> and
  parses to a number above 0 is stored as the amount and the flow moves on; any other
  text is answered with a retry prompt and the flow is left exactly as it was. The texts
  \<^verbatim>\<open>0\<close>, \<^verbatim>\<open>-1\<close>, \<^verbatim>\<open>abc\<close> and \<^verbatim>\<open>1.1234567\<close> are of the second kind, and a text that
  matches the pattern is its own trimmed form.
\<close>

lemma amount_step_with_draft:
  assumes chat: "msg_chat msg = sf_chatId f" "msg_chat msg = bf_chatId g"
      and step: "sf_listener f = Some AmountStep" "bf_listener g"
      and draft: "sf_userStates f (sf_chatId f) = Some d"
      and input: "msg_text msg = Some t"
  shows "(regexTest AMOUNT_REGEX (trim t) \<and> \<not> numberLeZero (parseFloat (trim t)) \<longrightarrow>
            send_on_message f msg =
              Inr (f\<lparr>sf_userStates := (sf_userStates f)(sf_chatId f \<mapsto>
                        d\<lparr>sd_amount := Some (parseFloat (trim t))\<rparr>),
                      sf_listener := Some DescriptionStep\<rparr>,
                   [SendMessage (sf_chatId f) AskDescription])
          \<and> bank_on_message g msg =
              (g\<lparr>bf_userStates := (bf_userStates g)(bf_chatId g \<mapsto> parseFloat (trim t)),
                  bf_listener := False, bf_callback := True\<rparr>,
               [SendMessage (bf_chatId g) (BankConfirmation (parseFloat (trim t)))]))
       \<and> (\<not> (regexTest AMOUNT_REGEX (trim t) \<and> \<not> numberLeZero (parseFloat (trim t))) \<longrightarrow>
            (\<exists>r \<in> {InvalidAmount, AmountNotPositive}.
               send_on_message f msg = Inr (f, [SendMessage (sf_chatId f) r])
             \<and> bank_on_message g msg = (g, [SendMessage (bf_chatId g) r])))
       \<and> (t \<in> {''0'', ''-1'', ''abc'', ''1.1234567''} \<longrightarrow>
            \<not> (regexTest AMOUNT_REGEX (trim t) \<and> \<not> numberLeZero (parseFloat (trim t))))
       \<and> (regexTest AMOUNT_REGEX t \<longrightarrow> trim t = t)"
proof (intro conjI impI)
  assume ok: "regexTest AMOUNT_REGEX (trim t) \<and> \<not> numberLeZero (parseFloat (trim t))"
  then have ne: "trim t \<noteq> []" using AMOUNT_REGEX_empty by auto
  from ok ne assms show "send_on_message f msg =
              Inr (f\<lparr>sf_userStates := (sf_userStates f)(sf_chatId f \<mapsto>
                        d\<lparr>sd_amount := Some (parseFloat (trim t))\<rparr>),
                      sf_listener := Some DescriptionStep\<rparr>,
                   [SendMessage (sf_chatId f) AskDescription])"
    by (simp add: send_on_message_def amountListener_def Let_def)
  from ok ne assms show "bank_on_message g msg =
              (g\<lparr>bf_userStates := (bf_userStates g)(bf_chatId g \<mapsto> parseFloat (trim t)),
                  bf_listener := False, bf_callback := True\<rparr>,
               [SendMessage (bf_chatId g) (BankConfirmation (parseFloat (trim t)))])"
    by (simp add: bank_on_message_def bankAmountListener_def Let_def)
next
  assume bad: "\<not> (regexTest AMOUNT_REGEX (trim t) \<and> \<not> numberLeZero (parseFloat (trim t)))"
  with assms show "\<exists>r \<in> {InvalidAmount, AmountNotPositive}.
               send_on_message f msg = Inr (f, [SendMessage (sf_chatId f) r])
             \<and> bank_on_message g msg = (g, [SendMessage (bf_chatId g) r])"
    by (auto simp: send_on_message_def amountListener_def bank_on_message_def
          bankAmountListener_def Let_def AMOUNT_REGEX_empty)
next
  assume "t \<in> {''0'', ''-1'', ''abc'', ''1.1234567''}"
  then show "\<not> (regexTest AMOUNT_REGEX (trim t) \<and> \<not> numberLeZero (parseFloat (trim t)))"
    using rejected_amounts by blast
next
  assume "regexTest AMOUNT_REGEX t"
  then show "trim t = t" by (rule amount_text_trimmed)
qed


lemma amount_without_draft_throws:
  assumes "msg_chat msg = sf_chatId f" and "sf_listener f = Some AmountStep"
      and "msg_text msg = Some t" and "regexTest AMOUNT_REGEX (trim t)"
      and "\<not> numberLeZero (parseFloat (trim t))"
      and "sf_userStates f (sf_chatId f) = None"
  shows "send_on_message f msg = Inl TypeError"
proof -
  from assms(4) have "trim t \<noteq> []" using AMOUNT_REGEX_empty by auto
  with assms show ?thesis
    by (simp add: send_on_message_def amountListener_def Let_def)
qed

lemma cancelledFlow_facts:
  "sf_chatId recipientGiven = 7"
  "sf_userStates recipientGiven 7 =
     Some \<lparr>sd_recipient = ''a@b.com'', sd_amount = None, sd_description = None\<rparr>"
  "sf_chatId cancelledFlow = 7"
  "sf_listener cancelledFlow = Some AmountStep"
  "sf_userStates cancelledFlow 7 = None"
  "regexTest AMOUNT_REGEX (trim ''10'')"
  "parseFloat (trim ''10'') = Num 10"
  by code_simp+

text \<open>
  C6. The code does not do what the claim says in one state. Chat 7 starts a send flow
  and gives the recipient; a tap on the cancel button of an earlier confirmation message
  then deletes the draft, while the amount listener stays registered. The text \<^verbatim>\<open>10\<close>
  matches \<open>AMOUNT_REGEX\<close> and parses to a number above 0, and the listener throws a
  \<^verbatim>\<open>TypeError\<close>: no amount is stored, the flow does not advance, nothing is sent.
\<close>

theorem amount_after_cancel_throws:
  "sf_userStates recipientGiven 7 =
     Some \<lparr>sd_recipient = ''a@b.com'', sd_amount = None, sd_description = None\<rparr>
   \<and> sf_listener cancelledFlow = Some AmountStep
   \<and> sf_userStates cancelledFlow 7 = None
   \<and> regexTest AMOUNT_REGEX ''10''
   \<and> parseFloat ''10'' = Num 10
   \<and> send_on_message cancelledFlow \<lparr>msg_chat = 7, msg_text = Some ''10''\<rparr> = Inl TypeError"
proof -
  have t: "trim ''10'' = ''10''" by code_simp
  have "send_on_message cancelledFlow \<lparr>msg_chat = 7, msg_text = Some ''10''\<rparr> = Inl TypeError"
    by (rule amount_without_draft_throws [where t = "''10''"])
       (simp_all add: cancelledFlow_facts)
  with cancelledFlow_facts t show ?thesis by simp
qed

section \<open>Properties of the bank withdrawal\<close>

lemma withdrawToBank_requests:
  "withdrawToBank e token amount bankId = (res, reqs) \<Longrightarrow>
     reqs = [\<lparr>verb = POST, url = ''/transfers/offramp'',
       body = JObj [(''amount'', JStr amount), (''bankId'', JStr bankId)],
       query = [], bearer = bearerOf token\<rparr>]"
  by (auto simp: withdrawToBank_def Let_def)

lemma confirmBankWithdraw_requests:
  "Http r \<in> set (snd (confirmBankWithdraw e store f)) \<Longrightarrow>
     \<exists>amount token. r = \<lparr>verb = POST, url = ''/transfers/offramp'',
       body = JObj [(''amount'', JStr amount), (''bankId'', JStr [])],
       query = [], bearer = bearerOf token\<rparr>"
  by (auto simp: confirmBankWithdraw_def Let_def
      split: option.splits if_splits prod.splits sum.splits dest!: withdrawToBank_requests)

lemma confirmBankWithdraw_submits:
  assumes "bf_userStates f (bf_chatId f) = Some amount"
      and "truthy (getUserToken store (bf_chatId f))"
  shows "Http \<lparr>verb = POST, url = ''/transfers/offramp'',
               body = JObj [(''amount'', JStr (numberToString e amount)), (''bankId'', JStr [])],
               query = [], bearer = bearerOf (getUserToken store (bf_chatId f))\<rparr>
           \<in> set (snd (confirmBankWithdraw e store f))"
  using assms
  by (auto simp: confirmBankWithdraw_def Let_def
      split: prod.splits sum.splits dest!: withdrawToBank_requests)

lemma bank_confirm_effects:
  assumes "bf_callback f" "cq_chat cq = Some (bf_chatId f)"
      and "cq_data cq = Some ''confirm_bank_withdraw''"
  shows "snd (bank_on_callback_query e store f cq) =
           AnswerCallbackQuery (cq_id cq) None # snd (confirmBankWithdraw e store f)"
  using assms by (simp add: bank_on_callback_query_def Let_def split: prod.splits)

text \<open>
  C10. A confirmed bank withdrawal with a draft and a session token posts to
  \<^verbatim>\<open>/transfers/offramp\<close> with the amount of the draft and \<^verbatim>\<open>bankId\<close> the empty text; and
  whatever the flow, the event and the user's inputs, every request the bank flow's
  callback handler issues is such a post with an empty \<^verbatim>\<open>bankId\<close>.
\<close>

theorem bank_withdrawal_empty_bankId:
  "(bf_callback f \<and> cq_chat cq = Some (bf_chatId f) \<and> cq_data cq = Some ''confirm_bank_withdraw''
      \<and> bf_userStates f (bf_chatId f) = Some amount \<and> truthy (getUserToken store (bf_chatId f))
    \<longrightarrow> Http \<lparr>verb = POST, url = ''/transfers/offramp'',
               body = JObj [(''amount'', JStr (numberToString e amount)), (''bankId'', JStr [])],
               query = [], bearer = bearerOf (getUserToken store (bf_chatId f))\<rparr>
           \<in> set (snd (bank_on_callback_query e store f cq)))
   \<and> (\<forall>r. Http r \<in> set (snd (bank_on_callback_query e store f cq)) \<longrightarrow>
          verb r = POST \<and> url r = ''/transfers/offramp'' \<and> get (body r) ''bankId'' = JStr [])"
proof -
  have submits: "bf_callback f \<and> cq_chat cq = Some (bf_chatId f)
      \<and> cq_data cq = Some ''confirm_bank_withdraw''
      \<and> bf_userStates f (bf_chatId f) = Some amount \<and> truthy (getUserToken store (bf_chatId f))
    \<longrightarrow> Http \<lparr>verb = POST, url = ''/transfers/offramp'',
               body = JObj [(''amount'', JStr (numberToString e amount)), (''bankId'', JStr [])],
               query = [], bearer = bearerOf (getUserToken store (bf_chatId f))\<rparr>
           \<in> set (snd (bank_on_callback_query e store f cq))"
    using confirmBankWithdraw_submits [of f amount store e]
    by (simp add: bank_confirm_effects)
  have only: "verb r = POST \<and> url r = ''/transfers/offramp'' \<and> get (body r) ''bankId'' = JStr []"
    if "Http r \<in> set (snd (bank_on_callback_query e store f cq))" for r
  proof -
    from that have "Http r \<in> set (snd (confirmBankWithdraw e store f))"
      by (auto simp: bank_on_callback_query_def Let_def split: if_splits prod.splits)
    from confirmBankWithdraw_requests [OF this] show ?thesis
      by auto
  qed
  from submits only show ?thesis
    by blast
qed


lemma bankDraftFlow_fields:
  "bf_callback bankDraftFlow" "bf_chatId bankDraftFlow = 7"
  "bf_userStates bankDraftFlow 7 = Some (Num (21 / 2))"
  "cq_chat bankConfirmTap = Some 7" "cq_data bankConfirmTap = Some ''confirm_bank_withdraw''"
  "getUserToken demoStore 7 = JStr ''tok''" "numberToString okEnv (Num (21 / 2)) = ''10.5''"
  by (simp_all add: bankDraftFlow_def bankConfirmTap_def getUserToken_def getUserSession_def
      demoStore_def demoToken_def okEnv_def demoNumberToString_def)

text \<open>The confirmed bank withdrawal of chat 7.\<close>

theorem bank_withdrawal_witness:
  "Http \<lparr>verb = POST, url = ''/transfers/offramp'',
         body = JObj [(''amount'', JStr ''10.5''), (''bankId'', JStr [])],
         query = [], bearer = Some ''tok''\<rparr>
     \<in> set (snd (bank_on_callback_query okEnv demoStore bankDraftFlow bankConfirmTap))
   \<and> get (JObj [(''amount'', JStr ''10.5''), (''bankId'', JStr [])]) ''bankId'' = JStr []"
proof -
  have a: "Http \<lparr>verb = POST, url = ''/transfers/offramp'',
         body = JObj [(''amount'', JStr ''10.5''), (''bankId'', JStr [])],
         query = [], bearer = Some ''tok''\<rparr>
     \<in> set (snd (bank_on_callback_query okEnv demoStore bankDraftFlow bankConfirmTap))"
    using bank_withdrawal_empty_bankId [of bankDraftFlow bankConfirmTap "Num (21 / 2)" demoStore okEnv]
    by (simp add: bankDraftFlow_fields bearerOf_def)
  with bank_withdrawal_empty_bankId [of bankDraftFlow bankConfirmTap "Num (21 / 2)" demoStore okEnv]
  have "get (body \<lparr>verb = POST, url = ''/transfers/offramp'',
         body = JObj [(''amount'', JStr ''10.5''), (''bankId'', JStr [])],
         query = [], bearer = Some ''tok''\<rparr>) ''bankId'' = JStr []"
    by blast
  with a show ?thesis by simp
qed

section \<open>Properties of the gateway\<close>

text \<open>
  C5, as stated, fails for the wallet operations: with the service down, each of them
  throws an \<^verbatim>\<open>Error\<close> instead of returning a result object.
\<close>

theorem wallet_operations_throw_counterexample:
  "fst (getWallets downEnv demoStore 7) = Inl (Error ''Service down'')
   \<and> fst (getWalletBalances downEnv demoStore 7) = Inl (Error ''Service down'')
   \<and> fst (setDefaultWallet downEnv demoStore 7 ''w1'') = Inl (Error ''Service down'')
   \<and> fst (getDefaultWallet downEnv demoStore 7) = Inl (Error ''Service down'')"
  by code_simp

lemma js_or_reportedError:
  "js_or (responseMessage resp) (js_or (JStr msg) (JStr phrase)) = reportedError resp msg phrase"
  by (simp add: js_or_def reportedError_def)

lemma truthy_reportedError: "phrase \<noteq> [] \<Longrightarrow> truthy (reportedError resp msg phrase)"
  by (simp add: reportedError_def)

lemma transfer_operations_never_throw:
  "\<exists>r reqs. sendFunds e token recipient amount description = (Inr r, reqs)"
  "\<exists>r reqs. withdrawToWallet e token address amount network = (Inr r, reqs)"
  "\<exists>r reqs. withdrawToBank e token amount bankId = (Inr r, reqs)"
  "\<exists>r reqs. getTransactionHistory e token page limit = (Inr r, reqs)"
  by (simp_all add: sendFunds_def withdrawToWallet_def withdrawToBank_def
      getTransactionHistory_def Let_def split: axios_result.split)

text \<open>
  C5, amended. Each of the four transfer operations (send funds, withdraw to wallet,
  withdraw to bank, fetch history) returns a result and never throws, whatever the remote
  service does. On a remote error the result has the success flag false and a truthy
  error value: the \<^verbatim>\<open>message\<close> of the response body when that is truthy, as it was
  received, else the text of the error, else a phrase of the operation. Send funds and
  the two withdrawals put it under \<^verbatim>\<open>data.error\<close>, fetch history under \<^verbatim>\<open>error\<close>. Each of
  the four wallet operations (list wallets, fetch balances, set and get default wallet),
  called for a chat with a session, throws on a remote error: an \<^verbatim>\<open>Error\<close> whose text is
  the \<^verbatim>\<open>message\<close> of the response body converted to a text when that is truthy, else the
  text of the error.
\<close>

theorem gateway_on_remote_error:
  "(\<exists>r reqs. sendFunds e token recipient amount description = (Inr r, reqs))
   \<and> (\<exists>r reqs. withdrawToWallet e token address amount network = (Inr r, reqs))
   \<and> (\<exists>r reqs. withdrawToBank e token amount bankId = (Inr r, reqs))
   \<and> (\<exists>r reqs. getTransactionHistory e token page limit = (Inr r, reqs))
   \<and> fst (sendFunds (e\<lparr>http := \<lambda>req. Rejected resp msg\<rparr>) token recipient amount description) =
     Inr \<lparr>success = False,
          data = JObj [(''error'', reportedError resp msg ''Failed to send funds'')],
          error = JUndefined\<rparr>
   \<and> truthy (reportedError resp msg ''Failed to send funds'')
   \<and> fst (withdrawToWallet (e\<lparr>http := \<lambda>req. Rejected resp msg\<rparr>) token address amount network) =
     Inr \<lparr>success = False,
          data = JObj [(''error'', reportedError resp msg ''Failed to withdraw funds'')],
          error = JUndefined\<rparr>
   \<and> truthy (reportedError resp msg ''Failed to withdraw funds'')
   \<and> fst (withdrawToBank (e\<lparr>http := \<lambda>req. Rejected resp msg\<rparr>) token amount bankId) =
     Inr \<lparr>success = False,
          data = JObj [(''error'', reportedError resp msg ''Failed to withdraw funds to bank'')],
          error = JUndefined\<rparr>
   \<and> truthy (reportedError resp msg ''Failed to withdraw funds to bank'')
   \<and> fst (getTransactionHistory (e\<lparr>http := \<lambda>req. Rejected resp msg\<rparr>) token page limit) =
     Inr \<lparr>success = False, data = JUndefined,
          error = reportedError resp msg ''Failed to fetch transaction history''\<rparr>
   \<and> truthy (reportedError resp msg ''Failed to fetch transaction history'')
   \<and> fst (getWallets (e\<lparr>http := \<lambda>req. Rejected resp msg\<rparr>) (store(chatId \<mapsto> session)) chatId) =
     Inl (Error (if truthy (responseMessage resp) then toString (responseMessage resp) else msg))
   \<and> fst (getWalletBalances (e\<lparr>http := \<lambda>req. Rejected resp msg\<rparr>) (store(chatId \<mapsto> session))
          chatId) =
     Inl (Error (if truthy (responseMessage resp) then toString (responseMessage resp) else msg))
   \<and> fst (setDefaultWallet (e\<lparr>http := \<lambda>req. Rejected resp msg\<rparr>) (store(chatId \<mapsto> session))
          chatId walletId) =
     Inl (Error (if truthy (responseMessage resp) then toString (responseMessage resp) else msg))
   \<and> fst (getDefaultWallet (e\<lparr>http := \<lambda>req. Rejected resp msg\<rparr>) (store(chatId \<mapsto> session))
          chatId) =
     Inl (Error (if truthy (responseMessage resp) then toString (responseMessage resp) else msg))"
proof -
  have ret: "fst (sendFunds (e\<lparr>http := \<lambda>req. Rejected resp msg\<rparr>) token recipient amount
                 description) =
     Inr \<lparr>success = False,
          data = JObj [(''error'', reportedError resp msg ''Failed to send funds'')],
          error = JUndefined\<rparr>"
    "fst (withdrawToWallet (e\<lparr>http := \<lambda>req. Rejected resp msg\<rparr>) token address amount network) =
     Inr \<lparr>success = False,
          data = JObj [(''error'', reportedError resp msg ''Failed to withdraw funds'')],
          error = JUndefined\<rparr>"
    "fst (withdrawToBank (e\<lparr>http := \<lambda>req. Rejected resp msg\<rparr>) token amount bankId) =
     Inr \<lparr>success = False,
          data = JObj [(''error'', reportedError resp msg ''Failed to withdraw funds to bank'')],
          error = JUndefined\<rparr>"
    "fst (getTransactionHistory (e\<lparr>http := \<lambda>req. Rejected resp msg\<rparr>) token page limit) =
     Inr \<lparr>success = False, data = JUndefined,
          error = reportedError resp msg ''Failed to fetch transaction history''\<rparr>"
    by (simp_all add: sendFunds_def withdrawToWallet_def withdrawToBank_def
        getTransactionHistory_def Let_def js_or_reportedError)
  have thr: "fst (walletCall (e\<lparr>http := \<lambda>req. Rejected resp msg\<rparr>) (store(chatId \<mapsto> session))
                 chatId m path payload) =
     Inl (Error (if truthy (responseMessage resp) then toString (responseMessage resp) else msg))"
    for m path payload
    by (simp add: walletCall_def walletCatch_def getUserSession_def Let_def)
  from ret thr transfer_operations_never_throw [of e] show ?thesis
    by (simp add: getWallets_def getWalletBalances_def setDefaultWallet_def getDefaultWallet_def
        truthy_reportedError)
qed

section \<open>Properties of the authentication gateway\<close>

lemma get_JStr_is_object: "get v k = JStr s \<Longrightarrow> \<not> nullish v"
  by (cases v) auto

lemma get_JArr_is_object: "get v k = JArr xs \<Longrightarrow> truthy v"
  by (cases v) auto

lemma get_truthy_is_object: "truthy (get v k) \<Longrightarrow> truthy v"
  by (cases v) auto

lemma joinValues_JStr: "joinValues sep (map (\<lambda>x. JStr (f x)) xs) = joinWith sep (map f xs)"
  by (simp add: joinValues_def comp_def)

lemma constraint_values:
  "joinValues '', '' (objectValues (JObj (map (\<lambda>(k, c). (k, JStr c)) cs))) = constraintTexts cs"
proof -
  have "map (\<lambda>x. if nullish x then [] else toString x)
          (map snd (map (\<lambda>(k, c). (k, JStr c)) cs)) = map snd cs"
    by (induction cs) auto
  then show ?thesis
    by (simp only: objectValues.simps joinValues_def constraintTexts_def)
qed

lemma joinWith_nonempty: "x \<noteq> [] \<Longrightarrow> joinWith sep (x # xs) \<noteq> []"
  by (cases xs) auto

lemma formatErrorObj_field:
  assumes "describesField p cs v"
  shows "formatErrorObj e v = Inr (JStr (p @ '': '' @ constraintTexts cs))"
proof -
  from assms have p: "p \<noteq> []" "get v ''property'' = JStr p"
    and c: "get v ''constraints'' = JObj (map (\<lambda>(k, c). (k, JStr c)) cs)"
    by (simp_all add: describesField_def)
  from get_JStr_is_object [OF p(2)] p show ?thesis
    unfolding formatErrorObj_def c constraint_values by simp
qed

lemma formatChild_field:
  assumes "describesChild ch c" and "get parent ''property'' = JStr p"
  shows "formatChild parent c = Inr (JStr (childFragment p ch))"
proof (cases ch)
  case (ChildViolation q cs)
  with assms have q: "q \<noteq> []" "get c ''property'' = JStr q"
    and k: "get c ''constraints'' = JObj (map (\<lambda>(k, c). (k, JStr c)) cs)"
    by (simp_all add: describesField_def)
  from get_JStr_is_object [OF q(2)] q assms(2) ChildViolation show ?thesis
    unfolding formatChild_def k constraint_values by simp
qed

lemma mapE_children:
  assumes "list_all2 describesChild chs children" and "get parent ''property'' = JStr p"
  shows "mapE (formatChild parent) children = Inr (map (\<lambda>ch. JStr (childFragment p ch)) chs)"
  using assms
  by (induction chs children rule: list_all2_induct) (simp_all add: formatChild_field)

lemma childFragment_nonempty: "childFragment p ch \<noteq> []"
  by (cases ch) simp

lemma filter_truthy_fragments:
  "\<forall>x \<in> set xs. f x \<noteq> [] \<Longrightarrow>
     filter truthy (map (\<lambda>x. JStr (f x)) xs) = map (\<lambda>x. JStr (f x)) xs"
  by (induction xs) auto

lemma fragment_nonempty:
  assumes "describes v x" shows "fragment v \<noteq> []"
proof (cases v)
  case (FieldViolation p cs)
  then show ?thesis by simp
next
  case (NestedViolation p chs)
  with assms obtain ch chs' where "chs = ch # chs'" by (cases chs) auto
  with NestedViolation show ?thesis
    by (simp add: joinWith_nonempty childFragment_nonempty)
qed

lemma formatErrorObj_describes:
  assumes "describes v x"
  shows "formatErrorObj e x = Inr (JStr (fragment v))"
proof (cases v)
  case (FieldViolation p cs)
  with assms show ?thesis by (simp add: formatErrorObj_field)
next
  case (NestedViolation p chs)
  with assms obtain children where
    ch: "get x ''children'' = JArr children" "list_all2 describesChild chs children"
    and p: "p \<noteq> []" "chs \<noteq> []" "get x ''property'' = JStr p" "get x ''constraints'' = JUndefined"
    by (auto split: json.splits)
  note m = mapE_children [OF ch(2) p(3)]
  have f: "filter truthy (map (\<lambda>ch. JStr (childFragment p ch)) chs) =
             map (\<lambda>ch. JStr (childFragment p ch)) chs"
    by (rule filter_truthy_fragments) (simp add: childFragment_nonempty)
  have ne: "joinWith ''; '' (map (childFragment p) chs) \<noteq> []"
    using fragment_nonempty [OF assms] NestedViolation by simp
  have "formatErrorObj e x =
          Inr (JStr (joinValues ''; '' (map (\<lambda>ch. JStr (childFragment p ch)) chs)))"
    using get_JStr_is_object [OF p(3)] p ne
    by (simp add: formatErrorObj_def ch(1) m f joinValues_JStr Let_def)
  with NestedViolation show ?thesis
    by (simp add: joinValues_JStr)
qed

lemma mapE_violations:
  assumes "list_all2 describes vs xs"
  shows "mapE (formatErrorObj e) xs = Inr (map (\<lambda>v. JStr (fragment v)) vs)"
  using assms
  by (induction vs xs rule: list_all2_induct) (simp_all add: formatErrorObj_describes)

lemma fragments_nonempty:
  assumes "list_all2 describes vs xs"
  shows "\<forall>v \<in> set vs. fragment v \<noteq> []"
  using assms
  by (induction vs xs rule: list_all2_induct) (simp_all add: fragment_nonempty)

lemma describes_typeofObject: "describes v x \<Longrightarrow> typeofObject x"
  by (cases v; cases x) (auto simp: describesField_def)

lemma validationMessage_violations:
  assumes vs: "vs \<noteq> []" "list_all2 describes vs xs"
      and d: "get d ''message'' = JArr xs"
  shows "validationMessage e d =
     (let errors = get d ''errors''
      in if truthy errors \<and> typeofObject errors
         then (let errorDetails =
                     joinWith ''; ''
                       (map (\<lambda>(field, msgs). field @ '': '' @
                               (case msgs of JArr ms \<Rightarrow> joinValues '', '' ms | _ \<Rightarrow> toString msgs))
                          (objectEntries errors))
               in if errorDetails \<noteq> [] then renderViolations vs @ '': '' @ errorDetails
                  else renderViolations vs)
         else renderViolations vs)"
proof -
  from vs obtain v vs' x xs' where split: "vs = v # vs'" "xs = x # xs'" "describes v x"
    by (cases vs; cases xs) auto
  have f: "filter truthy (map (\<lambda>v. JStr (fragment v)) vs) = map (\<lambda>v. JStr (fragment v)) vs"
    by (rule filter_truthy_fragments) (rule fragments_nonempty [OF vs(2)])
  have ne: "joinWith ''; '' (map fragment vs) \<noteq> []"
    using split fragment_nonempty [OF split(3)] by (simp add: joinWith_nonempty)
  have m: "mapE (formatErrorObj e) (x # xs') = Inr (map (\<lambda>v. JStr (fragment v)) vs)"
    using mapE_violations [OF vs(2), of e] split(2) by simp
  have r: "renderViolations vs = joinValues ''; '' (map (\<lambda>v. JStr (fragment v)) vs)"
    by (simp add: renderViolations_def joinValues_JStr)
  show ?thesis
    using get_JArr_is_object [OF d(1)] describes_typeofObject [OF split(3)] ne
    unfolding validationMessage_def d(1) split(2) json.case list.case m sum.case f r
      joinValues_JStr Let_def
    by simp
qed

lemma joinValues_texts: "joinValues sep (map JStr ms) = joinWith sep ms"
  using joinValues_JStr [of sep "\<lambda>x. x" ms] by simp

lemma errors_details:
  "joinWith ''; ''
     (map (\<lambda>(field, msgs). field @ '': '' @
             (case msgs of JArr ms \<Rightarrow> joinValues '', '' ms | _ \<Rightarrow> toString msgs))
        (objectEntries (encodeErrors es))) = renderErrors es"
proof -
  have "map (\<lambda>(field, msgs). field @ '': '' @
             (case msgs of JArr ms \<Rightarrow> joinValues '', '' ms | _ \<Rightarrow> toString msgs))
          (map (\<lambda>(f, ms). (f, JArr (map JStr ms))) es) =
        map (\<lambda>(f, ms). f @ '': '' @ joinWith '', '' ms) es"
    by (induction es) (auto simp: joinValues_texts)
  then show ?thesis
    unfolding encodeErrors_def renderErrors_def objectEntries.simps by (rule arg_cong)
qed

lemma renderErrors_nonempty: "es \<noteq> [] \<Longrightarrow> renderErrors es \<noteq> []"
  by (cases es) (auto simp: renderErrors_def joinWith_nonempty)

text \<open>
  C9, as stated, fails. Both bodies have a \<^verbatim>\<open>message\<close> array of objects with a property
  and constraints. The first also has an \<^verbatim>\<open>errors\<close> object, and the text thrown is more
  than the joined fragments; in the second a constraint is an object, and the text thrown
  holds it unserialized.
\<close>

theorem validation_errors_counterexample:
  "fst (authenticateWithOTP errorsEnv Map.empty ''a@b.co'' ''123456'') =
     Inl (Error ''email: email must be an email: otp: too short, digits only'')
   \<and> fst (authenticateWithOTP objectConstraintEnv Map.empty ''a@b.co'' ''123456'') =
     Inl (Error ''otp: [object Object]'')"
  by code_simp

text \<open>
  C9, amended. When the authenticate call is answered with status 422 and a \<^verbatim>\<open>message\<close>
  array whose entries are per-field validation errors (a property with constraints that
  are texts, or a property with child errors of that kind), the error thrown carries one
  text. It is the fragments \<open>property: constraints\<close> and \<open>parent.child: constraints\<close>,
  joined with \<open>; \<close>, when the body has no \<^verbatim>\<open>errors\<close> object; when the body has an
  \<^verbatim>\<open>errors\<close> object with at least one field, each field with a list of texts, \<open>: \<close> and
  the entries \<open>field: text, text\<close>, joined with \<open>; \<close>, follow.
\<close>

theorem validation_errors_normalized:
  assumes "vs \<noteq> []" and "list_all2 describes vs xs"
      and "get d ''message'' = JArr xs"
      and "http e (authenticateRequest sessions email otp) = Rejected (Some (422, d)) msg"
  shows "(\<not> (truthy (get d ''errors'') \<and> typeofObject (get d ''errors'')) \<longrightarrow>
            fst (authenticateWithOTP e sessions email otp) = Inl (Error (renderViolations vs)))
       \<and> (es \<noteq> [] \<and> get d ''errors'' = encodeErrors es \<longrightarrow>
            fst (authenticateWithOTP e sessions email otp) =
              Inl (Error (renderViolations vs @ '': '' @ renderErrors es)))"
proof -
  have run: "fst (authenticateWithOTP e sessions email otp) = Inl (Error (validationMessage e d))"
    using assms(4) by (simp add: authenticateWithOTP_def authenticateCatch_def)
  note vm = validationMessage_violations [OF assms(1-3), of e]
  have a: "validationMessage e d = renderViolations vs"
    if "\<not> (truthy (get d ''errors'') \<and> typeofObject (get d ''errors''))"
    using that vm by (simp add: Let_def)
  have b: "validationMessage e d = renderViolations vs @ '': '' @ renderErrors es"
    if "es \<noteq> []" "get d ''errors'' = encodeErrors es"
  proof -
    have o: "truthy (encodeErrors es) \<and> typeofObject (encodeErrors es)"
      by (simp add: encodeErrors_def)
    show ?thesis
      unfolding vm that(2) Let_def errors_details
      using o renderErrors_nonempty [OF that(1)] by simp
  qed
  from run a b show ?thesis by simp
qed

lemma violation_facts:
  "violationList \<noteq> []" "list_all2 describes violationList violationObjects"
  "get violationBody ''message'' = JArr violationObjects"
  "\<not> (truthy (get violationBody ''errors'') \<and> typeofObject (get violationBody ''errors''))"
  "renderViolations violationList =
     ''email: email must be an email, email should not be empty; user.otp: otp too short''"
  by code_simp+

lemma errorsBody_facts:
  "list_all2 describes [FieldViolation ''email'' [(''isEmail'', ''email must be an email'')]]
     [JObj [(''property'', JStr ''email''),
            (''constraints'', JObj [(''isEmail'', JStr ''email must be an email'')])]]"
  "get errorsBody ''message'' =
     JArr [JObj [(''property'', JStr ''email''),
                 (''constraints'', JObj [(''isEmail'', JStr ''email must be an email'')])]]"
  "get errorsBody ''errors'' = encodeErrors [(''otp'', [''too short'', ''digits only''])]"
  "renderViolations [FieldViolation ''email'' [(''isEmail'', ''email must be an email'')]] =
     ''email: email must be an email''"
  "renderErrors [(''otp'', [''too short'', ''digits only''])] = ''otp: too short, digits only''"
  by code_simp+

text \<open>
  The 422 body with a field error and a nested error, and the one with a field error and
  an \<^verbatim>\<open>errors\<close> object.
\<close>

theorem validation_errors_witness:
  "fst (authenticateWithOTP violationEnv Map.empty ''a@b.co'' ''123456'') =
     Inl (Error
       ''email: email must be an email, email should not be empty; user.otp: otp too short'')
   \<and> fst (authenticateWithOTP errorsEnv Map.empty ''a@b.co'' ''123456'') =
     Inl (Error ''email: email must be an email: otp: too short, digits only'')"
proof -
  have h: "http violationEnv (authenticateRequest Map.empty ''a@b.co'' ''123456'') =
             Rejected (Some (422, violationBody)) ''Request failed with status code 422''"
          "http errorsEnv (authenticateRequest Map.empty ''a@b.co'' ''123456'') =
             Rejected (Some (422, errorsBody)) ''Request failed with status code 422''"
    by (simp_all add: violationEnv_def errorsEnv_def)
  have ne: "[FieldViolation ''email'' [(''isEmail'', ''email must be an email'')]] \<noteq> []"
           "[(''otp'', [''too short'', ''digits only''])] \<noteq> []"
    by simp_all
  from validation_errors_normalized [OF violation_facts(1-3) h(1)] violation_facts(4)
  have a: "fst (authenticateWithOTP violationEnv Map.empty ''a@b.co'' ''123456'') =
     Inl (Error (renderViolations violationList))"
    by blast
  from validation_errors_normalized [OF ne(1) errorsBody_facts(1,2) h(2),
         of "[(''otp'', [''too short'', ''digits only''])]"] ne(2) errorsBody_facts(3)
  have b: "fst (authenticateWithOTP errorsEnv Map.empty ''a@b.co'' ''123456'') =
     Inl (Error (renderViolations [FieldViolation ''email''
                   [(''isEmail'', ''email must be an email'')]] @ '': '' @
                 renderErrors [(''otp'', [''too short'', ''digits only''])]))"
    by blast
  from a b show ?thesis
    unfolding violation_facts(5) errorsBody_facts(4,5) by simp
qed


lemma near_300:
  fixes x :: int
  assumes "299000 < x" and "x \<le> 300000"
  shows "x div 1000 = 299 \<or> x div 1000 = 300"
proof -
  have "299000 div 1000 \<le> x div 1000"
    using assms(1) by (intro zdiv_mono1) simp_all
  moreover have "x div 1000 \<le> 300000 div 1000"
    using assms(2) by (intro zdiv_mono1) simp_all
  ultimately show ?thesis by auto
qed

lemma tokenFromResponse_accessToken:
  assumes "\<not> truthy (get d ''token'')" and "truthy (get d ''accessToken'')"
      and "\<not> truthy (get d ''expiresIn'')" and "truthy (get d ''expireAt'')"
      and "dateGetTime e (get d ''expireAt'') = Some t"
  shows "\<exists>tok. tokenFromResponse e d = Inr tok
           \<and> at_token tok = get d ''accessToken''
           \<and> at_expiresIn tok = JNum ((t - now e) div 1000)"
proof -
  have "truthy d" using assms(2) by (rule get_truthy_is_object)
  with assms show ?thesis
    by (simp add: tokenFromResponse_def js_or_def Let_def)
qed

text \<open>
  C8. When the authenticate response has no truthy \<^verbatim>\<open>token\<close> and no truthy \<^verbatim>\<open>expiresIn\<close>
  but an \<^verbatim>\<open>accessToken\<close> and an \<^verbatim>\<open>expireAt\<close> that denotes the time \<open>t\<close>, the call succeeds
  with \<^verbatim>\<open>accessToken\<close> as the token and \<^verbatim>\<open>expiresIn\<close> the floor of \<open>(t - now) / 1000\<close>; for
  \<open>t\<close> 300 seconds ahead of the clock that is 300, and 299 or 300 when the clock is read
  less than a second later.
\<close>

theorem accessToken_and_expireAt_accepted:
  assumes "http e (authenticateRequest sessions email otp) = Resolved status d"
      and "\<not> truthy (get d ''token'')" and "truthy (get d ''accessToken'')"
      and "\<not> truthy (get d ''expiresIn'')" and "truthy (get d ''expireAt'')"
      and "dateGetTime e (get d ''expireAt'') = Some t"
  shows "\<exists>tok. fst (authenticateWithOTP e sessions email otp) = Inr tok
           \<and> at_token tok = get d ''accessToken''
           \<and> at_expiresIn tok = JNum ((t - now e) div 1000)
           \<and> (299000 < t - now e \<and> t - now e \<le> 300000 \<longrightarrow>
                at_expiresIn tok = JNum 299 \<or> at_expiresIn tok = JNum 300)
           \<and> (t - now e = 300000 \<longrightarrow> at_expiresIn tok = JNum 300)"
proof -
  from tokenFromResponse_accessToken [OF assms(2-6)] obtain tok where
    tok: "tokenFromResponse e d = Inr tok" "at_token tok = get d ''accessToken''"
         "at_expiresIn tok = JNum ((t - now e) div 1000)"
    by blast
  have run: "fst (authenticateWithOTP e sessions email otp) = Inr tok"
    using assms(1) tok(1) by (simp add: authenticateWithOTP_def)
  have near: "299000 < t - now e \<and> t - now e \<le> 300000 \<longrightarrow>
      at_expiresIn tok = JNum 299 \<or> at_expiresIn tok = JNum 300"
    using near_300 [of "t - now e"] tok(3) by auto
  have exact: "t - now e = 300000 \<longrightarrow> at_expiresIn tok = JNum 300"
    using tok(3) by simp
  from run tok(2,3) near exact show ?thesis by blast
qed

lemma tokenEnv_facts:
  "http tokenEnv (authenticateRequest Map.empty ''a@b.co'' ''123456'') =
     Resolved 200 (JObj [(''accessToken'', JStr ''abc''), (''expireAt'', JNum 1700000300000)])"
  "now tokenEnv = 1700000000000"
  "dateGetTime tokenEnv (JNum 1700000300000) = Some 1700000300000"
  by (simp_all add: tokenEnv_def)

text \<open>The response with \<^verbatim>\<open>accessToken\<close> and an \<^verbatim>\<open>expireAt\<close> 300 seconds ahead.\<close>

theorem accessToken_and_expireAt_witness:
  "\<exists>tok. fst (authenticateWithOTP tokenEnv Map.empty ''a@b.co'' ''123456'') = Inr tok
         \<and> at_token tok = JStr ''abc'' \<and> at_expiresIn tok = JNum 300"
  using accessToken_and_expireAt_accepted [of tokenEnv Map.empty "''a@b.co''" "''123456''" 200
          "JObj [(''accessToken'', JStr ''abc''), (''expireAt'', JNum 1700000300000)]"
          1700000300000]
  by (simp add: tokenEnv_facts) blast

section \<open>Properties of the login flow\<close>

lemma effects_emit: "effects (emit effs w) = effects w @ effs"
  by (simp add: emit_def)


lemma listeners_emit: "catchAllListeners (emit effs w) = catchAllListeners w"
  by (simp add: emit_def)

lemma effects_initializePusher:
  "\<exists>effs. effects (initializePusher chatId w) = effects w @ effs \<and> (\<forall>r. Http r \<notin> set effs)"
  by (auto simp: initializePusher_def emit_def split: option.splits)












text \<open>
  What the email listener does with a text of its chat whose trimmed form does not match
  \<open>EMAIL_REGEX\<close>, up to its return: it removes the first \<^verbatim>\<open>/.*/\<close> listener, whichever
  login registered it, and sends the invalid-format message; nothing is left to do after
  that, so no request is issued, no listener registered and no timer set.
\<close>

lemma invalid_email_handling:
  assumes "msg_chat m = chatId" and "msg_text m = Some t"
      and "\<not> regexTest EMAIL_REGEX (trim t)"
  shows "emailListenerSync chatId w m =
           (w\<lparr>catchAllListeners := drop 1 (catchAllListeners w),
              effects := effects w @ [SendMessage chatId InvalidEmailFormat]\<rparr>, [])"
  using assms by (simp add: emailListenerSync_def Let_def emit_def removeTextListener_def)

text \<open>
  C4. The code does not do what the claim says when another login is pending. Chats 7 and
  8 have both sent \<^verbatim>\<open>/login\<close>; the listener of chat 7 is the first one registered under
  \<^verbatim>\<open>/.*/\<close>. Chat 8 sends a text that is no email: it gets the invalid-format message, no
  request is issued, but the listener removed is the one of chat 7, and the listener of
  chat 8 stays. The flow of chat 8 has not ended: its next text, an email, is taken by
  that listener, and the OTP request is issued.
\<close>

theorem invalid_email_with_two_logins_pending:
  "catchAllListeners twoLogins = [EmailListener 7, EmailListener 8]
   \<and> catchAllListeners (step loginEnv twoLogins noEmail) = [EmailListener 8]
   \<and> effects (step loginEnv twoLogins noEmail) =
       effects twoLogins @ [SendMessage 8 InvalidEmailFormat]
   \<and> effects (run loginEnv twoLogins [noEmail, thenEmail]) =
       effects twoLogins @
       [SendMessage 8 InvalidEmailFormat,
        Http \<lparr>verb = POST, url = ''/auth/email-otp/request'',
              body = JObj [(''email'', JStr ''b@c.de'')], query = [], bearer = None\<rparr>,
        SendMessage 8 (OtpSent ''b@c.de'')]
   \<and> catchAllListeners (run loginEnv twoLogins [noEmail, thenEmail]) = [OtpListener 8 ''b@c.de'']"
  by code_simp

lemma filter_dropWhile_spaces:
  "filter (\<lambda>c. \<not> isSpace c) (dropWhile isSpace s) = filter (\<lambda>c. \<not> isSpace c) s"
  by (induction s) auto

lemma replaceSpaceRuns_filter: "replaceSpaceRuns s = filter (\<lambda>c. \<not> isSpace c) s"
  by (induction s rule: replaceSpaceRuns.induct) (simp_all add: filter_dropWhile_spaces)

lemma filter_trim: "filter (\<lambda>c. \<not> isSpace c) (trim s) = filter (\<lambda>c. \<not> isSpace c) s"
proof -
  have "filter (\<lambda>c. \<not> isSpace c) (rev (dropWhile isSpace (rev (dropWhile isSpace s)))) =
        rev (filter (\<lambda>c. \<not> isSpace c) (dropWhile isSpace (rev (dropWhile isSpace s))))"
    by (simp only: rev_filter)
  also have "\<dots> = rev (filter (\<lambda>c. \<not> isSpace c) (rev (dropWhile isSpace s)))"
    by (simp only: filter_dropWhile_spaces)
  also have "\<dots> = filter (\<lambda>c. \<not> isSpace c) (dropWhile isSpace s)"
    by (simp add: rev_filter)
  finally show ?thesis
    by (simp add: trim_def filter_dropWhile_spaces)
qed

lemma authenticateWithOTP_requests:
  "authenticateWithOTP e sessions email otp = (res, sessions', reqs) \<Longrightarrow>
     reqs = [authenticateRequest sessions email otp]"
  by (auto simp: authenticateWithOTP_def Let_def split: axios_result.splits sum.splits)

lemma getUserProfile_requests:
  "getUserProfile e store chatId = (res, reqs) \<Longrightarrow> \<forall>r \<in> set reqs. url r = ''/auth/me''"
  by (auto simp: getUserProfile_def Let_def split: option.splits)

lemma otp_listener_effects:
  assumes "msg_chat m = chatId" and "msg_text m = Some t" and "regexTest OTP_REGEX (trim t)"
  shows "\<exists>rest. effects (loginOtpListener e chatId email w m) =
           effects w @ [SendMessage chatId Authenticating,
                        Http (authenticateRequest (emailOtpSessions w) email (trim t))] @ rest
           \<and> (\<forall>r. Http r \<in> set rest \<longrightarrow> url r = ''/auth/me'')"
proof -
  define w2 where "w2 = emit [SendMessage chatId Authenticating] (removeTextListener w)"
  have s: "emailOtpSessions w2 = emailOtpSessions w"
    by (simp add: w2_def emit_def removeTextListener_def)
  have e2: "effects w2 = effects w @ [SendMessage chatId Authenticating]"
    by (simp add: w2_def emit_def removeTextListener_def)
  have whole: "loginOtpListener e chatId email w m = otpTask e chatId email (trim t) w2"
    using assms
    by (simp add: loginOtpListener_def otpListenerSync_def runTasks_def Let_def w2_def)
  obtain res sessions' reqs where
    a: "authenticateWithOTP e (emailOtpSessions w) email (trim t) = (res, sessions', reqs)"
    by (cases "authenticateWithOTP e (emailOtpSessions w) email (trim t)") auto
  then have reqs: "reqs = [authenticateRequest (emailOtpSessions w) email (trim t)]"
    by (rule authenticateWithOTP_requests)
  show ?thesis
  proof (cases res)
    case (Inl err)
    with a s e2 reqs show ?thesis
      unfolding whole by (simp add: otpTask_def effects_emit)
  next
    case (Inr authToken)
    define w3 where "w3 = emit (map Http reqs) (w2\<lparr>emailOtpSessions := sessions',
                 sessionStore := storeUserSession (sessionStore w2) chatId authToken\<rparr>)"
    have e3: "effects w3 = effects w @ [SendMessage chatId Authenticating,
                        Http (authenticateRequest (emailOtpSessions w) email (trim t))]"
      using reqs e2 by (simp add: w3_def emit_def)
    obtain pres preqs where p: "getUserProfile e (sessionStore w3) chatId = (pres, preqs)"
      by (cases "getUserProfile e (sessionStore w3) chatId") auto
    then have preqs: "\<forall>r \<in> set preqs. url r = ''/auth/me''"
      by (rule getUserProfile_requests)
    show ?thesis
    proof (cases pres)
      case (Inl err)
      have "otpTask e chatId email (trim t) w2 =
              emit (map Http preqs @ [SendMessage chatId (AuthenticationFailed err)]) w3"
        using a s Inr p Inl by (simp add: otpTask_def Let_def w3_def)
      then have "effects (loginOtpListener e chatId email w m) =
          effects w @ [SendMessage chatId Authenticating,
                        Http (authenticateRequest (emailOtpSessions w) email (trim t))] @
          (map Http preqs @ [SendMessage chatId (AuthenticationFailed err)])"
        using e3 by (simp add: whole effects_emit)
      moreover have "\<forall>r. Http r \<in> set (map Http preqs @
                        [SendMessage chatId (AuthenticationFailed err)])
               \<longrightarrow> url r = ''/auth/me''"
        using preqs by auto
      ultimately show ?thesis by blast
    next
      case profile: (Inr profile)
      define w5 where "w5 = (if truthy (get profile ''organizationId'')
                 then (emit (map Http preqs) w3)\<lparr>sessionStore :=
                        storeUserSession (sessionStore (emit (map Http preqs) w3)) chatId
                          (authToken\<lparr>at_organizationId := get profile ''organizationId''\<rparr>)\<rparr>
                 else emit (map Http preqs) w3)"
      have e5: "effects w5 = effects w3 @ map Http preqs"
        by (simp add: w5_def effects_emit)
      obtain effs where e6: "effects (initializePusher chatId w5) = effects w5 @ effs"
        and nohttp: "\<forall>r. Http r \<notin> set effs"
        using effects_initializePusher [of chatId w5] by blast
      have "otpTask e chatId email (trim t) w2 =
              emit [DeleteMessage chatId,
                    SendMessage chatId (Welcome (toString (get profile ''firstName'')))]
                (initializePusher chatId w5)"
        using a s Inr p profile by (simp add: otpTask_def Let_def w3_def w5_def)
      then have "effects (loginOtpListener e chatId email w m) =
          effects (initializePusher chatId w5) @ [DeleteMessage chatId,
                    SendMessage chatId (Welcome (toString (get profile ''firstName'')))]"
        by (simp add: whole effects_emit)
      then have "effects (loginOtpListener e chatId email w m) =
          effects w @ [SendMessage chatId Authenticating,
                        Http (authenticateRequest (emailOtpSessions w) email (trim t))] @
          (map Http preqs @ effs @ [DeleteMessage chatId,
                    SendMessage chatId (Welcome (toString (get profile ''firstName'')))])"
        by (simp add: e6 e5 e3)
      moreover have "\<forall>r. Http r \<in> set (map Http preqs @ effs @ [DeleteMessage chatId,
                    SendMessage chatId (Welcome (toString (get profile ''firstName'')))])
               \<longrightarrow> url r = ''/auth/me''"
        using preqs nohttp by auto
      ultimately show ?thesis by blast
    qed
  qed
qed

text \<open>
  C7. The OTP listener, given a text of its chat whose trimmed form matches \<open>OTP_REGEX\<close>,
  sends the loading message and then posts to the authenticate endpoint with \<^verbatim>\<open>otp\<close> equal
  to the text with every white-space character removed; no other request of the handler
  goes to that endpoint.
\<close>

theorem otp_submitted_without_whitespace:
  assumes "msg_chat m = chatId" and "msg_text m = Some t" and "regexTest OTP_REGEX (trim t)"
  shows "\<exists>rest. effects (loginOtpListener e chatId email w m) =
           effects w @
           [SendMessage chatId Authenticating,
            Http \<lparr>verb = POST, url = ''/auth/email-otp/authenticate'',
                  body = JObj [(''email'', JStr email),
                               (''otp'', JStr (filter (\<lambda>c. \<not> isSpace c) t)),
                               (''sid'', case emailOtpSessions w email of
                                           None \<Rightarrow> JUndefined | Some sid \<Rightarrow> sid)],
                  query = [], bearer = None\<rparr>] @ rest
           \<and> (\<forall>r. Http r \<in> set rest \<longrightarrow> url r = ''/auth/me'')"
  using otp_listener_effects [OF assms, of e email w]
  by (simp add: authenticateRequest_def replaceSpaceRuns_filter filter_trim)

lemma awaitingOtp_facts:
  "regexTest OTP_REGEX (trim ''12 34 56'')"
  "filter (\<lambda>c. \<not> isSpace c) ''12 34 56'' = ''123456''"
  "emailOtpSessions awaitingOtp ''a@b.co'' = Some (JStr ''s1'')"
  by code_simp+

text \<open>Chat 7 answers the OTP prompt with \<^verbatim>\<open>12 34 56\<close>.\<close>

theorem otp_submitted_witness:
  "\<exists>rest. effects (loginOtpListener loginEnv 7 ''a@b.co'' awaitingOtp
                     \<lparr>msg_chat = 7, msg_text = Some ''12 34 56''\<rparr>) =
           effects awaitingOtp @
           [SendMessage 7 Authenticating,
            Http \<lparr>verb = POST, url = ''/auth/email-otp/authenticate'',
                  body = JObj [(''email'', JStr ''a@b.co''), (''otp'', JStr ''123456''),
                               (''sid'', JStr ''s1'')],
                  query = [], bearer = None\<rparr>] @ rest"
proof -
  let ?m = "\<lparr>msg_chat = 7, msg_text = Some ''12 34 56''\<rparr>"
  have h: "msg_chat ?m = 7" "msg_text ?m = Some ''12 34 56''"
    by simp_all
  from otp_submitted_without_whitespace [OF h awaitingOtp_facts(1), of loginEnv "''a@b.co''"
         awaitingOtp]
  show ?thesis
    unfolding awaitingOtp_facts(2,3) option.case by blast
qed


end
